theory Spec2Isabelle
  imports Main "HOL-Library.Sublist"
begin

section \<open>Python values, errors and string operations\<close>

text \<open>
  Exceptions are values. Each constructor is a Python exception class; \<open>RuntimeError\<close> and
  \<open>AssertionError\<close> carry the message the source raises them with.
\<close>

datatype error =
    RuntimeError string
  | AssertionError string
  | TypeError
  | IndexError
  | KeyError
  | ValueError
  | FileNotFoundError
  | UnboundLocalError

definition and_then :: "error + 'a \<Rightarrow> ('a \<Rightarrow> error + 'b) \<Rightarrow> error + 'b" where
  "and_then r f = (case r of Inl e \<Rightarrow> Inl e | Inr x \<Rightarrow> f x)"

text \<open>\<open>xs[i]\<close> and \<open>xs[i] = v\<close> on a Python list: a negative index counts from the end.\<close>

definition item :: "'a list \<Rightarrow> int \<Rightarrow> error + 'a" where
  "item xs i =
     (let n = int (length xs); j = (if i < 0 then i + n else i)
      in if 0 \<le> j \<and> j < n then Inr (xs ! nat j) else Inl IndexError)"

definition set_item :: "'a list \<Rightarrow> int \<Rightarrow> 'a \<Rightarrow> error + 'a list" where
  "set_item xs i v =
     (let n = int (length xs); j = (if i < 0 then i + n else i)
      in if 0 \<le> j \<and> j < n then Inr (xs[nat j := v]) else Inl IndexError)"

text \<open>\<open>sub in s\<close> on strings.\<close>

fun py_in :: "string \<Rightarrow> string \<Rightarrow> bool" where
  "py_in sub [] = (sub = [])"
| "py_in sub (c # cs) = (prefix sub (c # cs) \<or> py_in sub cs)"

text \<open>
  \<open>s.split(sep)\<close> with an explicit separator: the pieces between the non-overlapping
  occurrences of \<open>sep\<close>, found left to right. Every separator of the source is a non-empty
  literal (Python raises ValueError on an empty one).
\<close>

fun split_on :: "string \<Rightarrow> string \<Rightarrow> string \<Rightarrow> string list" where
  "split_on sep cur [] = [cur]"
| "split_on sep cur (c # cs) =
     (if sep \<noteq> [] \<and> prefix sep (c # cs)
      then cur # split_on sep [] (drop (length sep) (c # cs))
      else split_on sep (cur @ [c]) cs)"

definition py_split :: "string \<Rightarrow> string \<Rightarrow> string list" where
  "py_split sep s = split_on sep [] s"

text \<open>
  The ASCII characters for which \<open>str.isspace\<close> holds; \<open>strip\<close> and \<open>split\<close> without a
  separator remove them. A string is a list of ASCII characters here.
\<close>

definition is_space :: "char \<Rightarrow> bool" where
  "is_space c = (c \<in> set [CHR 0x20, CHR 0x09, CHR 0x0A, CHR 0x0B, CHR 0x0C, CHR 0x0D,
                             CHR 0x1C, CHR 0x1D, CHR 0x1E, CHR 0x1F])"

definition strip :: "string \<Rightarrow> string" where
  "strip s = rev (dropWhile is_space (rev (dropWhile is_space s)))"

text \<open>\<open>s.split()\<close>: the maximal runs of non-whitespace characters.\<close>

fun split_ws :: "string \<Rightarrow> string \<Rightarrow> string list" where
  "split_ws cur [] = (if cur = [] then [] else [cur])"
| "split_ws cur (c # cs) =
     (if is_space c then (if cur = [] then split_ws [] cs else cur # split_ws [] cs)
      else split_ws (cur @ [c]) cs)"

definition py_split_ws :: "string \<Rightarrow> string list" where
  "py_split_ws s = split_ws [] s"

text \<open>\<open>sep.join(xs)\<close>.\<close>

fun join :: "string \<Rightarrow> string list \<Rightarrow> string" where
  "join sep [] = []"
| "join sep [x] = x"
| "join sep (x # y # ys) = x @ sep @ join sep (y # ys)"

text \<open>
  \<open>fp.readlines()\<close>: the lines of a text, each keeping its newline. The text is what
  Python hands to the program, after it has translated the line endings of the file to
  the newline character.
\<close>

fun lines_of :: "string \<Rightarrow> string \<Rightarrow> string list" where
  "lines_of cur [] = (if cur = [] then [] else [cur])"
| "lines_of cur (c # cs) =
     (if c = CHR 0x0A then (cur @ [c]) # lines_of [] cs else lines_of (cur @ [c]) cs)"

definition readlines :: "string \<Rightarrow> string list" where
  "readlines text = lines_of [] text"

text \<open>\<open>str(n)\<close> for an integer.\<close>

definition digit_char :: "nat \<Rightarrow> char" where
  "digit_char d = char_of (48 + d)"

fun str_nat :: "nat \<Rightarrow> string" where
  "str_nat n = (if n < 10 then [digit_char n] else str_nat (n div 10) @ [digit_char (n mod 10)])"

declare str_nat.simps [simp del]

definition str_int :: "int \<Rightarrow> string" where
  "str_int i = (if i < 0 then CHR ''-'' # str_nat (nat (- i)) else str_nat (nat i))"

text \<open>
  \<open>int(s)\<close> on an ASCII string: surrounding whitespace is dropped, one sign is allowed, and
  the digits may be grouped by single underscores. The whitespace \<open>int\<close> drops is the
  space and the characters 0x09 to 0x0D only: the separators 0x1C to 0x1F, which \<open>strip\<close>
  removes, make \<open>int\<close> raise ValueError.
\<close>

definition is_int_space :: "char \<Rightarrow> bool" where
  "is_int_space c = (c \<in> set [CHR 0x20, CHR 0x09, CHR 0x0A, CHR 0x0B, CHR 0x0C, CHR 0x0D])"

definition is_digit :: "char \<Rightarrow> bool" where
  "is_digit c = (c \<in> set ''0123456789'')"

definition digits_value :: "string \<Rightarrow> nat" where
  "digits_value ds = foldl (\<lambda>acc c. 10 * acc + (of_char c - 48)) 0 ds"

definition py_int :: "string \<Rightarrow> error + int" where
  "py_int s =
     (let t = rev (dropWhile is_int_space (rev (dropWhile is_int_space s)));
          neg = (case t of [] \<Rightarrow> False | c # _ \<Rightarrow> c = CHR ''-'');
          body = (case t of [] \<Rightarrow> [] | c # cs \<Rightarrow> if c = CHR ''-'' \<or> c = CHR ''+'' then cs else t);
          groups = py_split ''_'' body
      in if list_all (\<lambda>g. g \<noteq> [] \<and> list_all is_digit g) groups
         then Inr ((if neg then - 1 else 1) * int (digits_value (concat groups)))
         else Inl ValueError)"

section \<open>rid/common/plumed/make\_plumed.py\<close>

subsection \<open>The custom CV parser \<open>user_plumed_def\<close>\<close>

text \<open>The local variables of \<open>user_plumed_def\<close> that the loop over the lines updates.\<close>

record parse_state =
  ret :: string
  cv_names :: "string list"
  ispath :: bool
  print_content :: "string option"

definition init_state :: parse_state where
  "init_state = \<lparr>ret = [], cv_names = [], ispath = False, print_content = None\<rparr>"

text \<open>Line 111: the test that ends the loop.\<close>

definition is_print :: "string \<Rightarrow> bool" where
  "is_print line = (py_in ''PRINT'' line \<and> \<not> py_in ''#'' line)"

text \<open>Lines 117 and 127: the CV kind read from a declaration line.\<close>

definition colon_cv_type :: "string \<Rightarrow> error + string" where
  "colon_cv_type line =
     and_then (item (py_split '':'' line) 1) (\<lambda>t. item (py_split '' '' (strip t)) 0)"

definition label_cv_type :: "string \<Rightarrow> error + string" where
  "label_cv_type line =
     and_then (item (py_split ''LABEL='' line) 0) (\<lambda>t. item (py_split '' '' (strip t)) 0)"

text \<open>Lines 116 to 135: what one line does to the state when the method is "restrained".\<close>

definition restrained_line :: "string \<Rightarrow> parse_state \<Rightarrow> error + parse_state" where
  "restrained_line line st =
     (if py_in '':'' line \<and> \<not> py_in ''#'' line then
        and_then (colon_cv_type line) (\<lambda>cv_type.
          if cv_type \<noteq> ''PATH'' \<and> \<not> ispath st then
            and_then (item (py_split '':'' line) 0) (\<lambda>l.
              Inr (st\<lparr>cv_names := cv_names st @ [strip l]\<rparr>))
          else if cv_type = ''PATH'' then
            and_then (item (py_split '':'' line) 0) (\<lambda>l.
              Inr (st\<lparr>ispath := True,
                      cv_names := [strip (l @ ''.spath''), strip (l @ ''.zpath'')]\<rparr>))
          else Inr st)
      else if py_in ''LABEL'' line \<and> \<not> py_in ''#'' line then
        and_then (label_cv_type line) (\<lambda>cv_type.
          if cv_type \<noteq> ''PATH'' \<and> \<not> ispath st then
            and_then (item (py_split ''LABEL='' line) 1) (\<lambda>l.
              Inr (st\<lparr>cv_names := cv_names st @ [strip l]\<rparr>))
          else if cv_type = ''PATH'' then
            and_then (item (py_split ''LABEL='' line) 1) (\<lambda>l.
              Inr (st\<lparr>ispath := True,
                      cv_names := [strip l @ ''.spath'', strip l @ ''.zpath'']\<rparr>))
          else Inr st)
      else Inr st)"

text \<open>Lines 115 to 137: the dispatch on the method.\<close>

definition line_step :: "string \<Rightarrow> string \<Rightarrow> parse_state \<Rightarrow> error + parse_state" where
  "line_step method line st =
     (if method = ''restrained'' then restrained_line line st
      else if method = ''constrained'' then Inr (st\<lparr>cv_names := []\<rparr>)
      else Inr st)"

text \<open>Lines 110 to 137: the loop, which a PRINT line that is no comment ends.\<close>

fun scan_lines :: "string \<Rightarrow> string list \<Rightarrow> parse_state \<Rightarrow> error + parse_state" where
  "scan_lines method [] st = Inr st"
| "scan_lines method (line # rest) st =
     (if is_print line then Inr (st\<lparr>print_content := Some (line @ ''\<newline>'')\<rparr>)
      else and_then (line_step method line (st\<lparr>ret := ret st @ line\<rparr>))
             (\<lambda>st'. scan_lines method rest st'))"

text \<open>Lines 143 to 146 (and 149 to 152): the stride and file fields of the directive are replaced.\<close>

definition rewrite_print :: "string \<Rightarrow> int \<Rightarrow> string \<Rightarrow> error + string" where
  "rewrite_print pc pstride pfile =
     and_then (set_item (py_split_ws pc) (- 1) (''FILE='' @ pfile)) (\<lambda>l1.
     and_then (set_item l1 1 (''STRIDE='' @ str_int pstride)) (\<lambda>l2.
     Inr (join '' '' l2)))"

definition mismatch_msg :: "nat \<Rightarrow> nat \<Rightarrow> string" where
  "mismatch_msg defined printed =
     ''There are '' @ str_nat defined @ '' CVs defined in the plumed file, while ''
       @ str_nat printed @ '' CVs are printed.''"

text \<open>
  \<open>user_plumed_def(cv_file, pstride, pfile, method)\<close>. The file system is a map from file
  names to their text; \<open>open\<close> on a missing file raises.
\<close>

definition user_plumed_def ::
  "(string \<rightharpoonup> string) \<Rightarrow> string \<Rightarrow> int \<Rightarrow> string \<Rightarrow> string
     \<Rightarrow> error + (string \<times> string list \<times> string option)" where
  "user_plumed_def fs cv_file pstride pfile method =
     (case fs cv_file of
        None \<Rightarrow> Inl FileNotFoundError
      | Some text \<Rightarrow>
          and_then (scan_lines method (readlines text) init_state) (\<lambda>st.
            if ret st = [] \<and> cv_names st = [] then
              Inl (RuntimeError ''Invalid customed plumed files.'')
            else
              (case print_content st of
                 None \<Rightarrow> Inr (ret st, cv_names st, None)
               | Some pc \<Rightarrow>
                   if method = ''restrained'' then
                     (if length (py_split '','' pc) = length (cv_names st) then
                        and_then (rewrite_print pc pstride pfile) (\<lambda>p.
                          Inr (ret st, cv_names st, Some p))
                      else Inl (AssertionError
                             (mismatch_msg (length (cv_names st)) (length (py_split '','' pc)))))
                   else if method = ''constrained'' then
                     and_then (rewrite_print pc pstride pfile) (\<lambda>p.
                       Inr (ret st, cv_names st, Some p))
                   else Inr (ret st, cv_names st, Some pc))))"

text \<open>
  A call of \<open>user_plumed_def\<close>: the parameter \<open>method\<close> has no default (line 103), so a call
  that leaves it out raises TypeError before the body runs.
\<close>

definition call_user_plumed_def ::
  "(string \<rightharpoonup> string) \<Rightarrow> string \<Rightarrow> int \<Rightarrow> string \<Rightarrow> string option
     \<Rightarrow> error + (string \<times> string list \<times> string option)" where
  "call_user_plumed_def fs cv_file pstride pfile method =
     (case method of
        None \<Rightarrow> Inl TypeError
      | Some m \<Rightarrow> user_plumed_def fs cv_file pstride pfile m)"

text \<open>
  The vocabulary of the statements about the parser. \<open>body_lines\<close> are the lines the loop
  reads before it stops: those before the first PRINT line that is no comment, which
  \<open>first_directive\<close> returns. \<open>path_decl\<close> is the test of lines 116 to 121 and 126 to 131
  that a line declares a CV of kind PATH, and \<open>sliced_path_names\<close> is the computation
  of lines 124, 125, 134 and 135: the two names, built from the slice of the line that the
  code takes for the label.
\<close>

definition body_lines :: "string list \<Rightarrow> string list" where
  "body_lines lines = takeWhile (\<lambda>l. \<not> is_print l) lines"

definition first_directive :: "string list \<Rightarrow> string option" where
  "first_directive lines = find is_print lines"

definition path_decl :: "string \<Rightarrow> bool" where
  "path_decl line =
     (if py_in '':'' line \<and> \<not> py_in ''#'' line then colon_cv_type line = Inr ''PATH''
      else if py_in ''LABEL'' line \<and> \<not> py_in ''#'' line then label_cv_type line = Inr ''PATH''
      else False)"

definition sliced_path_names :: "string \<Rightarrow> error + string list" where
  "sliced_path_names line =
     (if py_in '':'' line \<and> \<not> py_in ''#'' line then
        and_then (item (py_split '':'' line) 0) (\<lambda>l.
          Inr [strip (l @ ''.spath''), strip (l @ ''.zpath'')])
      else
        and_then (item (py_split ''LABEL='' line) 1) (\<lambda>l.
          Inr [strip l @ ''.spath'', strip l @ ''.zpath'']))"

text \<open>
  The label of a declaration as the spec's two syntactic forms give it, and not as the
  code slices it. In a colon-separated definition line the label is the text before the
  first colon, without the whitespace around it. In a \<open>LABEL=\<close> attribute line it is the
  value of the attribute: the word that follows the first \<open>LABEL=\<close>, up to the next
  whitespace. \<open>synthetic_path_names\<close> are the names \<open><label>.spath\<close> and \<open><label>.zpath\<close>.
\<close>

fun after_first :: "string \<Rightarrow> string \<Rightarrow> string" where
  "after_first sub [] = []"
| "after_first sub (c # cs) =
     (if prefix sub (c # cs) then drop (length sub) (c # cs) else after_first sub cs)"

definition declared_label :: "string \<Rightarrow> string" where
  "declared_label line =
     (if py_in '':'' line \<and> \<not> py_in ''#'' line
      then strip (takeWhile (\<lambda>c. c \<noteq> CHR '':'') line)
      else takeWhile (\<lambda>c. \<not> is_space c) (after_first ''LABEL='' line))"

definition synthetic_path_names :: "string \<Rightarrow> string list" where
  "synthetic_path_names line = [declared_label line @ ''.spath'', declared_label line @ ''.zpath'']"

text \<open>
  A declaration writes its label plainly when, in the colon form, no whitespace stands
  between the label and the colon, and when, in the attribute form, \<open>LABEL=\<close> occurs once
  and its value is the last word of the line.
\<close>

definition plain_label :: "string \<Rightarrow> bool" where
  "plain_label line =
     (if py_in '':'' line \<and> \<not> py_in ''#'' line
      then \<not> (takeWhile (\<lambda>c. c \<noteq> CHR '':'') line \<noteq> []
                \<and> is_space (last (takeWhile (\<lambda>c. c \<noteq> CHR '':'') line)))
      else list_all is_space (dropWhile (\<lambda>c. \<not> is_space c) (after_first ''LABEL='' line))
           \<and> \<not> py_in ''LABEL='' (after_first ''LABEL='' line))"

text \<open>
  Custom CV fragments: two declarations that are no PATH followed by a PATH declaration
  and a directive that prints its two channels; the same in the attribute form, without a
  directive; a PATH declaration whose \<open>LABEL=\<close> attribute is not the last one; a PATH
  declaration that comes after the directive; a fragment whose first line is the
  directive; a fragment whose directive is the single word PRINT; and a directive that
  prints two fields after one declaration.
\<close>

definition attribute_path_fragment :: string where
  "attribute_path_fragment =
     ''DISTANCE ATOMS=1,2 LABEL=d1\<newline>TORSION ATOMS=1,2,3,4 LABEL=t1\<newline>PATH REFERENCE=r.pdb LABEL=p1\<newline>''"

definition label_first_fragment :: string where
  "label_first_fragment = ''PATH LABEL=p1 REFERENCE=r.pdb\<newline>''"


definition path_fragment :: string where
  "path_fragment =
     ''d1: DISTANCE ATOMS=1,2\<newline>t1: TORSION ATOMS=1,2,3,4\<newline>p1: PATH REFERENCE=r.pdb\<newline>PRINT STRIDE=10 ARG=p1.spath,p1.zpath FILE=colvar\<newline>''"

definition late_path_fragment :: string where
  "late_path_fragment =
     ''d1: DISTANCE ATOMS=1,2\<newline>PRINT STRIDE=10 ARG=d1 FILE=colvar\<newline>p1: PATH REFERENCE=r.pdb\<newline>''"

definition directive_first_fragment :: string where
  "directive_first_fragment = ''PRINT STRIDE=10 ARG=d1 FILE=colvar\<newline>''"

definition bare_directive_fragment :: string where
  "bare_directive_fragment = ''d1: DISTANCE ATOMS=1,2\<newline>PRINT\<newline>''"

definition mismatch_fragment :: string where
  "mismatch_fragment =
     ''d1: DISTANCE ATOMS=1,2\<newline>PRINT STRIDE=10 ARG=d1,d2 FILE=colvar\<newline>''"

subsection \<open>Collaborators that are not part of the module\<close>

text \<open>
  \<open>make_plumed.py\<close> imports its format templates from \<open>rid.common.plumed.plumed_constant\<close>,
  \<open>list_to_string\<close> from \<open>rid.utils\<close> and the two topology readers from \<open>rid.common.mol\<close>.
  The functions below take them as the fields of one environment \<open>env\<close>: a template is the
  function from its format arguments to the formatted text, and a topology reader returns the
  dictionary it builds, as the list of its items in key order. \<open>'v\<close> is the type of the numbers
  (force constants, reference values, trust levels) that the templates print, \<open>'d\<close> the type of
  the values of the distance dictionary, which the module never reads.
\<close>

type_synonym dihedral_info = "(int \<times> (string \<times> int list) list) list"

record ('v, 'd) plumed_env =
  list_to_string :: "string option list \<Rightarrow> string \<Rightarrow> string"
  get_dihedral_from_resid :: "string option \<Rightarrow> int list option \<Rightarrow> dihedral_info"
  get_distance_from_atomid :: "string option \<Rightarrow> int list option \<Rightarrow> (string \<times> 'd) list"
  dihedral_name :: "int \<Rightarrow> int \<Rightarrow> string"
  distance_name :: "int \<Rightarrow> int \<Rightarrow> string"
  dihedral_def_from_atoms :: "string \<Rightarrow> int \<Rightarrow> int \<Rightarrow> int \<Rightarrow> int \<Rightarrow> string"
  distance_def_from_atoms :: "string \<Rightarrow> string \<Rightarrow> string \<Rightarrow> string"
  deepfe_def :: "'v \<Rightarrow> 'v \<Rightarrow> string \<Rightarrow> string \<Rightarrow> string"
  print_def :: "int \<Rightarrow> string \<Rightarrow> string \<Rightarrow> string"
  restraint_def :: "string \<Rightarrow> string \<Rightarrow> 'v \<Rightarrow> 'v \<Rightarrow> string"

subsection \<open>Restraints, bias and monitoring clauses\<close>

definition angle_id :: "string \<rightharpoonup> int" where
  "angle_id = [''phi'' \<mapsto> 0, ''psi'' \<mapsto> 1]"

definition make_restraint ::
  "('v, 'd) plumed_env \<Rightarrow> string \<Rightarrow> string \<Rightarrow> 'v \<Rightarrow> 'v \<Rightarrow> string" where
  "make_restraint env name arg kappa at = restraint_def env name arg kappa at"

definition kappa_msg :: string where
  "kappa_msg = ''Make sure `kappa` and `cv_names` have the same length.''"

definition at_msg :: string where
  "at_msg = ''Make sure `at` and `cv_names` have the same length.''"

text \<open>
  \<open>make_restraint_list\<close> returns the pair \<open>(res_list, res_names)\<close>. The loop runs over the
  indices of \<open>cv_list\<close>; the two assertions put every \<open>kappa[idx]\<close> and \<open>at[idx]\<close> in range.
  What the function and the logger write to standard output is not part of the model.
\<close>

definition make_restraint_list ::
  "('v, 'd) plumed_env \<Rightarrow> string list \<Rightarrow> 'v list \<Rightarrow> 'v list
     \<Rightarrow> error + (string list \<times> string list)" where
  "make_restraint_list env cv_list kappa at =
     (if length cv_list \<noteq> length kappa then Inl (AssertionError kappa_msg)
      else if length cv_list \<noteq> length at then Inl (AssertionError at_msg)
      else Inr (map (\<lambda>idx. make_restraint env (''res-'' @ cv_list ! idx) (cv_list ! idx)
                               (kappa ! idx) (at ! idx)) [0 ..< length cv_list],
                map (\<lambda>idx. ''res-'' @ cv_list ! idx) [0 ..< length cv_list]))"

definition make_deepfe_bias ::
  "('v, 'd) plumed_env \<Rightarrow> string list \<Rightarrow> 'v \<Rightarrow> 'v \<Rightarrow> string list \<Rightarrow> string" where
  "make_deepfe_bias env cv_list trust_lvl_1 trust_lvl_2 model_list =
     (if length model_list = 0 then []
      else deepfe_def env trust_lvl_1 trust_lvl_2
             (list_to_string env (map Some model_list) '','')
             (list_to_string env (map Some cv_list) '',''))"

definition make_print :: "('v, 'd) plumed_env \<Rightarrow> string list \<Rightarrow> int \<Rightarrow> string \<Rightarrow> string" where
  "make_print env name_list stride file_name =
     print_def env stride (list_to_string env (map Some name_list) '','') file_name"

subsection \<open>The CV resolver\<close>

definition make_torsion :: "('v, 'd) plumed_env \<Rightarrow> string \<Rightarrow> int list \<Rightarrow> error + string" where
  "make_torsion env name atom_list =
     (if length atom_list = 4
      then Inr (dihedral_def_from_atoms env name (atom_list ! 0) (atom_list ! 1)
                  (atom_list ! 2) (atom_list ! 3))
      else Inl (AssertionError (''Make sure dihedral angle defined by 4 atoms, not ''
                  @ str_nat (length atom_list) @ ''.'')))"

definition make_distance :: "('v, 'd) plumed_env \<Rightarrow> string \<Rightarrow> string list \<Rightarrow> error + string" where
  "make_distance env name atom_list =
     (if length atom_list = 2
      then Inr (distance_def_from_atoms env name (atom_list ! 0) (atom_list ! 1))
      else Inl (AssertionError (''Make sure distance defined by 2 atoms, not ''
                  @ str_nat (length atom_list) @ ''.'')))"

definition make_torsion_name :: "('v, 'd) plumed_env \<Rightarrow> int \<Rightarrow> int \<Rightarrow> string" where
  "make_torsion_name env resid angid = dihedral_name env resid angid"

definition make_distance_name :: "('v, 'd) plumed_env \<Rightarrow> string list \<Rightarrow> error + string" where
  "make_distance_name env atomids =
     and_then (item atomids 0) (\<lambda>a1.
     and_then (py_int a1) (\<lambda>atomid1.
     and_then (item atomids 1) (\<lambda>a2.
     and_then (py_int a2) (\<lambda>atomid2.
     Inr (distance_name env atomid1 atomid2)))))"

text \<open>
  \<open>make_torsion_list\<close>: the inner loop over the angles of one residue, the outer loop over
  the residues; the accumulator is the pair \<open>(torsion_list, torsion_name_list)\<close>.
\<close>

fun torsion_angles ::
  "('v, 'd) plumed_env \<Rightarrow> int \<Rightarrow> (string \<times> int list) list \<Rightarrow> string list \<times> string list
     \<Rightarrow> error + (string list \<times> string list)" where
  "torsion_angles env resid [] acc = Inr acc"
| "torsion_angles env resid ((ang, atoms) # rest) acc =
     (case angle_id ang of
        None \<Rightarrow> Inl KeyError
      | Some angid \<Rightarrow>
          and_then (make_torsion env (make_torsion_name env resid angid) atoms) (\<lambda>t.
            torsion_angles env resid rest
              (fst acc @ [t], snd acc @ [make_torsion_name env resid angid])))"

fun torsion_residues ::
  "('v, 'd) plumed_env \<Rightarrow> dihedral_info \<Rightarrow> string list \<times> string list
     \<Rightarrow> error + (string list \<times> string list)" where
  "torsion_residues env [] acc = Inr acc"
| "torsion_residues env ((resid, angles) # rest) acc =
     and_then (torsion_angles env resid angles acc) (\<lambda>acc'. torsion_residues env rest acc')"

definition make_torsion_list ::
  "('v, 'd) plumed_env \<Rightarrow> dihedral_info \<Rightarrow> error + (string list \<times> string list)" where
  "make_torsion_list env dihedral_info = torsion_residues env dihedral_info ([], [])"

fun distance_pairs ::
  "('v, 'd) plumed_env \<Rightarrow> (string \<times> 'd) list \<Rightarrow> string list \<times> string list
     \<Rightarrow> error + (string list \<times> string list)" where
  "distance_pairs env [] acc = Inr acc"
| "distance_pairs env ((atomids, dis) # rest) acc =
     and_then (make_distance_name env (py_split '' '' atomids)) (\<lambda>name.
     and_then (make_distance env name (py_split '' '' atomids)) (\<lambda>d.
       distance_pairs env rest (fst acc @ [d], snd acc @ [name])))"

definition make_distance_list ::
  "('v, 'd) plumed_env \<Rightarrow> (string \<times> 'd) list \<Rightarrow> error + (string list \<times> string list)" where
  "make_distance_list env distance_info = distance_pairs env distance_info ([], [])"

definition make_torsion_list_from_file ::
  "('v, 'd) plumed_env \<Rightarrow> string option \<Rightarrow> int list option
     \<Rightarrow> error + (string list \<times> string list)" where
  "make_torsion_list_from_file env file_path selected_resid =
     (let cv_info = get_dihedral_from_resid env file_path selected_resid
      in if length cv_info > 0 then make_torsion_list env cv_info
         else Inl (AssertionError ''No valid CVs created.''))"

definition make_distance_list_from_file ::
  "('v, 'd) plumed_env \<Rightarrow> string option \<Rightarrow> int list option
     \<Rightarrow> error + (string list \<times> string list)" where
  "make_distance_list_from_file env file_path selected_atomid =
     (let cv_info = get_distance_from_atomid env file_path selected_atomid
      in if length cv_info > 0 then make_distance_list env cv_info
         else Inl (AssertionError ''No valid CVs created.''))"

subsection \<open>The three entry points of the synthesizer, and \<open>get_cv_name\<close>\<close>

text \<open>
  \<open>kappa\<close> and \<open>at\<close> are either one number (\<open>isinstance\<close> of \<open>int\<close> or \<open>float\<close>) or a
  sequence. Lines 261 to 264 turn a number into the list that repeats it once per CV name
  and leave a sequence as it is.
\<close>

datatype 'v scalar_or_seq = Scalar 'v | Sequence "'v list"

fun broadcast :: "'v scalar_or_seq \<Rightarrow> nat \<Rightarrow> 'v list" where
  "broadcast (Scalar v) n = replicate n v"
| "broadcast (Sequence vs) n = vs"

text \<open>\<open>cv_file[0]\<close>, where \<open>cv_file\<close> is a list of file names or \<open>None\<close>.\<close>

definition first_cv_file :: "string list option \<Rightarrow> error + string" where
  "first_cv_file cv_file = (case cv_file of None \<Rightarrow> Inl TypeError | Some fs \<Rightarrow> item fs 0)"

definition unknown_mode :: error where
  "unknown_mode = RuntimeError ''Unknown mode for making plumed files.''"

text \<open>
  Each entry point first resolves the CVs as \<open>mode\<close> says (lines 250 to 259, 281 to 290
  and 310 to 323) and then builds the script from \<open>content_list\<close> and \<open>cv_name_list\<close>.
\<close>

definition resolve_restraint_cvs ::
  "('v, 'd) plumed_env \<Rightarrow> (string \<rightharpoonup> string) \<Rightarrow> string option \<Rightarrow> string list option
     \<Rightarrow> int list option \<Rightarrow> int \<Rightarrow> string \<Rightarrow> string \<Rightarrow> string
     \<Rightarrow> error + (string list \<times> string list)" where
  "resolve_restraint_cvs env fs conf cv_file selected_resid stride output mode method =
     (if mode = ''torsion'' then
        and_then (make_torsion_list_from_file env conf selected_resid) (\<lambda>(cv_content_list, cv_name_list).
          Inr (cv_content_list, cv_name_list))
      else if mode = ''custom'' then
        and_then (first_cv_file cv_file) (\<lambda>f.
        and_then (call_user_plumed_def fs f stride output (Some method)) (\<lambda>(r, cv_name_list, _).
          Inr ([r], cv_name_list)))
      else Inl unknown_mode)"

definition make_restraint_plumed ::
  "('v, 'd) plumed_env \<Rightarrow> (string \<rightharpoonup> string) \<Rightarrow> string option \<Rightarrow> string list option
     \<Rightarrow> int list option \<Rightarrow> 'v scalar_or_seq \<Rightarrow> 'v scalar_or_seq \<Rightarrow> int \<Rightarrow> string
     \<Rightarrow> string \<Rightarrow> string \<Rightarrow> error + string" where
  "make_restraint_plumed env fs conf cv_file selected_resid kappa at stride output mode method =
     and_then (resolve_restraint_cvs env fs conf cv_file selected_resid stride output mode method)
       (\<lambda>(content_list, cv_name_list).
          and_then (make_restraint_list env cv_name_list
                      (broadcast kappa (length cv_name_list))
                      (broadcast at (length cv_name_list))) (\<lambda>(res_list, _).
            Inr (list_to_string env
                   (map Some (content_list @ res_list @ [make_print env cv_name_list stride output]))
                   ''\<newline>'')))"

text \<open>
  In \<open>make_constraint_plumed\<close> the variable \<open>print_content\<close> is bound only on the custom
  path: the third component below is \<open>None\<close> while it is unbound, and \<open>Some v\<close> once it
  holds \<open>v\<close> (a text or Python's \<open>None\<close>).
\<close>

definition resolve_constraint_cvs ::
  "('v, 'd) plumed_env \<Rightarrow> (string \<rightharpoonup> string) \<Rightarrow> string option \<Rightarrow> string list option
     \<Rightarrow> int list option \<Rightarrow> int \<Rightarrow> string \<Rightarrow> string \<Rightarrow> string
     \<Rightarrow> error + (string option list \<times> string list \<times> string option option)" where
  "resolve_constraint_cvs env fs conf cv_file selected_atomid stride output mode method =
     (if mode = ''distance'' then
        and_then (make_distance_list_from_file env conf selected_atomid) (\<lambda>(cv_content_list, cv_name_list).
          Inr (map Some cv_content_list, cv_name_list, None))
      else if mode = ''custom'' then
        and_then (first_cv_file cv_file) (\<lambda>f.
        and_then (call_user_plumed_def fs f stride output (Some method)) (\<lambda>(r, cv_name_list, pc).
          Inr ([Some r], cv_name_list, Some pc)))
      else Inl unknown_mode)"

definition make_constraint_plumed ::
  "('v, 'd) plumed_env \<Rightarrow> (string \<rightharpoonup> string) \<Rightarrow> string option \<Rightarrow> string list option
     \<Rightarrow> int list option \<Rightarrow> int \<Rightarrow> string \<Rightarrow> string \<Rightarrow> string \<Rightarrow> error + string" where
  "make_constraint_plumed env fs conf cv_file selected_atomid stride output mode method =
     and_then (resolve_constraint_cvs env fs conf cv_file selected_atomid stride output mode method)
       (\<lambda>(content_list, cv_name_list, bound_print_content).
          and_then
            (if cv_name_list = [] then
               (case bound_print_content of
                  None \<Rightarrow> Inl UnboundLocalError
                | Some pc \<Rightarrow> Inr (content_list @ [pc]))
             else Inr (content_list @ [Some (make_print env cv_name_list stride output)]))
            (\<lambda>content_list'. Inr (list_to_string env content_list' ''\<newline>'')))"

definition resolve_deepfe_cvs ::
  "('v, 'd) plumed_env \<Rightarrow> (string \<rightharpoonup> string) \<Rightarrow> string option \<Rightarrow> string list option
     \<Rightarrow> int list option \<Rightarrow> int list option \<Rightarrow> int \<Rightarrow> string \<Rightarrow> string
     \<Rightarrow> error + (string list \<times> string list)" where
  "resolve_deepfe_cvs env fs conf cv_file selected_resid selected_atomid stride output mode =
     (if mode = ''torsion'' then
        and_then (make_torsion_list_from_file env conf selected_resid) (\<lambda>(cv_content_list, cv_name_list).
          Inr (cv_content_list, cv_name_list))
      else if mode = ''distance'' then
        and_then (make_distance_list_from_file env conf selected_atomid) (\<lambda>(cv_content_list, cv_name_list).
          Inr (cv_content_list, cv_name_list))
      else if mode = ''custom'' then
        and_then (first_cv_file cv_file) (\<lambda>f.
        and_then (call_user_plumed_def fs f stride output None) (\<lambda>(r, cv_name_list, _).
          Inr ([r], cv_name_list)))
      else Inl unknown_mode)"

definition make_deepfe_plumed ::
  "('v, 'd) plumed_env \<Rightarrow> (string \<rightharpoonup> string) \<Rightarrow> string option \<Rightarrow> string list option
     \<Rightarrow> int list option \<Rightarrow> int list option \<Rightarrow> 'v \<Rightarrow> 'v \<Rightarrow> string list \<Rightarrow> int \<Rightarrow> string
     \<Rightarrow> string \<Rightarrow> error + string" where
  "make_deepfe_plumed env fs conf cv_file selected_resid selected_atomid trust_lvl_1 trust_lvl_2
       model_list stride output mode =
     and_then (resolve_deepfe_cvs env fs conf cv_file selected_resid selected_atomid stride output mode)
       (\<lambda>(content_list, cv_name_list).
          Inr (list_to_string env
                 (map Some (content_list
                    @ [make_deepfe_bias env cv_name_list trust_lvl_1 trust_lvl_2 model_list]
                    @ [make_print env cv_name_list stride output]))
                 ''\<newline>''))"

definition get_cv_name ::
  "('v, 'd) plumed_env \<Rightarrow> (string \<rightharpoonup> string) \<Rightarrow> string option \<Rightarrow> string list option
     \<Rightarrow> int list option \<Rightarrow> int list option \<Rightarrow> int \<Rightarrow> string \<Rightarrow> error + string list" where
  "get_cv_name env fs conf cv_file selected_resid selected_atomid stride mode =
     (if mode = ''torsion'' then
        and_then (make_torsion_list_from_file env conf selected_resid) (\<lambda>(_, cv_name_list).
          Inr cv_name_list)
      else if mode = ''distance'' then
        and_then (make_distance_list_from_file env conf selected_atomid) (\<lambda>(_, cv_name_list).
          Inr cv_name_list)
      else if mode = ''custom'' then
        and_then (first_cv_file cv_file) (\<lambda>f.
        and_then (call_user_plumed_def fs f stride ''test.out'' None) (\<lambda>(_, cv_name_list, _).
          Inr cv_name_list))
      else Inl unknown_mode)"

subsection \<open>One concrete environment\<close>

text \<open>A Python number, as the templates see it: an \<open>int\<close>, or a \<open>float\<close> given by its \<open>repr\<close>.\<close>

datatype pynum = PyInt int | PyFloat string

definition format_num :: "pynum \<Rightarrow> string" where
  "format_num v = (case v of PyInt i \<Rightarrow> str_int i | PyFloat r \<Rightarrow> r)"

definition zero_pad :: "nat \<Rightarrow> int \<Rightarrow> string" where
  "zero_pad w i = replicate (w - length (str_int i)) CHR ''0'' @ str_int i"

text \<open>
  Modelled from the spec: the modules \<open>rid.common.plumed.plumed_constant\<close>, \<open>rid.utils\<close> and
  \<open>rid.common.mol\<close> are not under src/. The spec says that a CV name is a deterministic
  function of the residue id and the angle ordinal (or of the two atom ids), that the script
  is newline-joined and that the topology reader maps each residue id to the four atoms of
  each backbone angle. \<open>sample_env\<close> is one environment of that shape, used where a statement
  has to be evaluated; its topology readers return the dictionaries of the two end-to-end
  scenarios of the spec, whatever the topology file is.
\<close>

definition sample_env :: "(pynum, unit) plumed_env" where
  "sample_env =
     \<lparr> list_to_string = (\<lambda>xs sep. join sep (map (\<lambda>x. case x of None \<Rightarrow> ''None'' | Some t \<Rightarrow> t) xs)),
       get_dihedral_from_resid = (\<lambda>conf resid. [(12, [(''phi'', [1, 2, 3, 4]), (''psi'', [5, 6, 7, 8])])]),
       get_distance_from_atomid = (\<lambda>conf atomid. [(''10 20'', ())]),
       dihedral_name = (\<lambda>resid angid. ''dih-'' @ zero_pad 3 resid @ ''-'' @ zero_pad 2 angid),
       distance_name = (\<lambda>a1 a2. ''dis-'' @ zero_pad 3 a1 @ ''-'' @ zero_pad 3 a2),
       dihedral_def_from_atoms = (\<lambda>name a1 a2 a3 a4.
          name @ '': TORSION ATOMS='' @ str_int a1 @ '','' @ str_int a2 @ '','' @ str_int a3
            @ '','' @ str_int a4),
       distance_def_from_atoms = (\<lambda>name a1 a2. name @ '': DISTANCE ATOMS='' @ a1 @ '','' @ a2),
       deepfe_def = (\<lambda>t1 t2 model arg.
          ''dpfe: DEEPFE TRUST_LVL_1='' @ format_num t1 @ '' TRUST_LVL_2='' @ format_num t2
            @ '' MODEL='' @ model @ '' ARG='' @ arg),
       print_def = (\<lambda>stride arg file.
          ''PRINT STRIDE='' @ str_int stride @ '' ARG='' @ arg @ '' FILE='' @ file),
       restraint_def = (\<lambda>name arg kappa at.
          name @ '': RESTRAINT ARG='' @ arg @ '' KAPPA='' @ format_num kappa
            @ '' AT='' @ format_num at) \<rparr>"

section \<open>rid/op/run\_select.py\<close>

text \<open>
  The body of \<open>RunSelect.execute\<close> from line 101 on, given the two loaded arrays and the
  walker index of lines 94 to 100. Writing a file and slicing a trajectory are effects; the
  function returns the list of the effects in the order they happen. The constants of
  \<open>rid.constants\<close> and the functions \<open>make_std\<close> and \<open>select_from_devi\<close> are not part of
  the module and are the fields of \<open>select_env\<close>. \<open>'r\<close> is the type of the deviations, the
  trust level, the time step and the output frequency, \<open>'c\<close> the type of one row of CV
  values, \<open>'m\<close> the type of a model file.
\<close>

record ('r, 'c, 'm) select_env =
  make_std :: "'c list \<Rightarrow> 'm list \<Rightarrow> 'r list"
  select_from_devi :: "'r list \<Rightarrow> 'r \<Rightarrow> int list"
  model_devi_name :: string
  sel_ndx_name :: string
  sel_gro_name :: "int \<Rightarrow> int \<Rightarrow> string"
  sel_lmp_name :: "int \<Rightarrow> int \<Rightarrow> string"
  cv_init_label :: "int \<Rightarrow> int \<Rightarrow> string"

datatype ('r, 'c) effect =
    SaveDevi string "'r list"
  | SaveIndex string "int list"
  | SaveCv string 'c
  | SliceXtcGmx int int 'r 'r string
  | SliceXtcMdtraj int "int list"
  | SliceDump int "int list"

text \<open>Indexing a numpy array with an array of indices.\<close>

definition np_take :: "'a list \<Rightarrow> int list \<Rightarrow> error + 'a list" where
  "np_take xs idx =
     (if list_all (\<lambda>i. - int (length xs) \<le> i \<and> i < int (length xs)) idx
      then Inr (map (\<lambda>i. xs ! nat (if i < 0 then i + int (length xs) else i)) idx)
      else Inl IndexError)"

text \<open>
  Lines 102 to 110: the deviation record is written, the indices are chosen and the chosen
  entries of \<open>cls_sel_idx\<close> are saved. The result is the effects, \<open>_selected_idx\<close> and \<open>sel_idx\<close>.
\<close>

definition select_stage ::
  "('r, 'c, 'm) select_env \<Rightarrow> 'm list option \<Rightarrow> 'r \<Rightarrow> int list \<Rightarrow> 'c list
     \<Rightarrow> error + (('r, 'c) effect list \<times> int list \<times> int list)" where
  "select_stage env models trust_lvl_1 cls_sel_idx cls_sel_data =
     (let (saved, selected_idx) =
            (case models of
               None \<Rightarrow> (SaveDevi (''cls_'' @ model_devi_name env) [],
                         map int [0 ..< length cls_sel_idx])
             | Some ms \<Rightarrow> (SaveDevi (''cls_'' @ model_devi_name env) (make_std env cls_sel_data ms),
                            select_from_devi env (make_std env cls_sel_data ms) trust_lvl_1))
      in and_then (np_take cls_sel_idx selected_idx) (\<lambda>sel_idx.
           Inr ([saved, SaveIndex (sel_ndx_name env) sel_idx], selected_idx, sel_idx)))"

text \<open>Lines 112 to 124: the trajectory is sliced in the style \<open>slice_mode\<close> names.\<close>

fun slice_gmx ::
  "('r, 'c, 'm) select_env \<Rightarrow> int \<Rightarrow> 'r \<Rightarrow> 'r option \<Rightarrow> int list \<Rightarrow> error + ('r, 'c) effect list" where
  "slice_gmx env walker_idx dt output_freq [] = Inr []"
| "slice_gmx env walker_idx dt output_freq (sel # rest) =
     (case output_freq of
        None \<Rightarrow> Inl TypeError
      | Some freq \<Rightarrow>
          and_then (slice_gmx env walker_idx dt output_freq rest) (\<lambda>es.
            Inr (SliceXtcGmx walker_idx sel dt freq (sel_gro_name env walker_idx sel) # es)))"

definition slice_stage ::
  "('r, 'c, 'm) select_env \<Rightarrow> string \<Rightarrow> int \<Rightarrow> 'r option \<Rightarrow> 'r option \<Rightarrow> int list
     \<Rightarrow> error + ('r, 'c) effect list" where
  "slice_stage env slice_mode walker_idx dt output_freq sel_idx =
     (if slice_mode = ''gmx'' then
        (case dt of
           None \<Rightarrow> Inl (AssertionError ''Please provide time step to slice trajectory.'')
         | Some d \<Rightarrow> slice_gmx env walker_idx d output_freq sel_idx)
      else if slice_mode = ''mdtraj'' then Inr [SliceXtcMdtraj walker_idx sel_idx]
      else if slice_mode = ''dpdata'' then Inr [SliceDump walker_idx sel_idx]
      else Inl (RuntimeError ''Unknown Style for Slicing Trajectory.''))"

text \<open>
  Lines 125 to 136: one structure file name, one tag and one CV file per selected index.
  A path is the pair of the task directory and the file name joined to it.
\<close>

record ('r, 'c) op_out =
  selected_confs :: "(string \<times> string) list"
  selected_cv_init :: "(string \<times> string) list"
  model_devi :: "string \<times> string"
  selected_indices :: "string \<times> string"
  selected_conf_tags :: "string \<rightharpoonup> string"

fun collect_confs ::
  "('r, 'c, 'm) select_env \<Rightarrow> string \<Rightarrow> string \<Rightarrow> int \<Rightarrow> (int \<times> 'c) list
     \<Rightarrow> (string \<times> string) list \<times> (string \<times> string) list \<times> (string \<rightharpoonup> string) \<times> ('r, 'c) effect list
     \<Rightarrow> (string \<times> string) list \<times> (string \<times> string) list \<times> (string \<rightharpoonup> string) \<times> ('r, 'c) effect list" where
  "collect_confs env task_name slice_mode walker_idx [] acc = acc"
| "collect_confs env task_name slice_mode walker_idx ((sel, row) # rest)
       (conf_list, cv_init_list, conf_tags, effects) =
     collect_confs env task_name slice_mode walker_idx rest
       ((if slice_mode = ''dpdata'' then conf_list @ [(task_name, sel_lmp_name env walker_idx sel)]
         else if slice_mode = ''gmx'' \<or> slice_mode = ''mdtraj''
              then conf_list @ [(task_name, sel_gro_name env walker_idx sel)]
         else conf_list),
        cv_init_list @ [(task_name, cv_init_label env walker_idx sel)],
        (if slice_mode = ''dpdata''
         then conf_tags(sel_lmp_name env walker_idx sel \<mapsto> task_name @ ''_'' @ str_int sel)
         else if slice_mode = ''gmx'' \<or> slice_mode = ''mdtraj''
              then conf_tags(sel_gro_name env walker_idx sel \<mapsto> task_name @ ''_'' @ str_int sel)
         else conf_tags),
        effects @ [SaveCv (cv_init_label env walker_idx sel) row])"

definition execute ::
  "('r, 'c, 'm) select_env \<Rightarrow> string \<Rightarrow> int \<Rightarrow> int list \<Rightarrow> 'c list \<Rightarrow> 'm list option \<Rightarrow> 'r
     \<Rightarrow> 'r option \<Rightarrow> 'r option \<Rightarrow> string \<Rightarrow> error + (('r, 'c) effect list \<times> ('r, 'c) op_out)" where
  "execute env task_name walker_idx cls_sel_idx cls_sel_data models trust_lvl_1 dt output_freq
       slice_mode =
     and_then (select_stage env models trust_lvl_1 cls_sel_idx cls_sel_data)
       (\<lambda>(effects1, selected_idx, sel_idx).
     and_then (np_take cls_sel_data selected_idx) (\<lambda>sel_data.
     and_then (slice_stage env slice_mode walker_idx dt output_freq sel_idx) (\<lambda>effects2.
       (case collect_confs env task_name slice_mode walker_idx (zip sel_idx sel_data)
               ([], [], Map.empty, []) of
          (conf_list, cv_init_list, conf_tags, effects3) \<Rightarrow>
            Inr (effects1 @ effects2 @ effects3,
                 \<lparr> selected_confs = conf_list,
                   selected_cv_init = cv_init_list,
                   model_devi = (task_name, ''cls_'' @ model_devi_name env),
                   selected_indices = (task_name, sel_ndx_name env),
                   selected_conf_tags = conf_tags \<rparr>)))))"

section \<open>rid/entrypoint/resubmit.py\<close>

text \<open>
  A step of the recorded workflow, with the three fields \<open>resubmit_rid\<close> reads: \<open>step["type"]\<close>,
  \<open>step["phase"]\<close> and \<open>step["key"]\<close> (which is \<open>None\<close> for a step without a key).
\<close>

record argo_step =
  step_type :: string
  step_phase :: string
  step_key :: "string option"

text \<open>Lines 145 to 150: the loop that collects the steps to reuse.\<close>

fun collect_succeeded :: "argo_step list \<Rightarrow> argo_step list \<Rightarrow> argo_step list" where
  "collect_succeeded [] succeeded_steps = succeeded_steps"
| "collect_succeeded (step # rest) succeeded_steps =
     collect_succeeded rest
       (if step_type step = ''Pod'' then
          (if step_phase step = ''Succeeded'' then
             (if step_key step \<noteq> Some ''prepare-rid'' then succeeded_steps @ [step]
              else succeeded_steps)
           else succeeded_steps)
        else succeeded_steps)"

text \<open>Line 153: the list handed to \<open>wf.submit(reuse_step=...)\<close>.\<close>

definition reuse_step :: "argo_step list \<Rightarrow> argo_step list" where
  "reuse_step all_steps = collect_succeeded all_steps []"

section \<open>Facts about sequencing and the Python operations\<close>

lemma and_then_Inl [simp]: "and_then (Inl e) f = Inl e"
  by (simp add: and_then_def)

lemma and_then_Inr [simp]: "and_then (Inr x) f = f x"
  by (simp add: and_then_def)

lemma and_then_eq_Inl:
  "and_then r f = Inl e \<longleftrightarrow> r = Inl e \<or> (\<exists>x. r = Inr x \<and> f x = Inl e)"
  by (cases r) simp_all

lemma and_then_eq_Inr:
  "and_then r f = Inr y \<longleftrightarrow> (\<exists>x. r = Inr x \<and> f x = Inr y)"
  by (cases r) simp_all

section \<open>Restraint construction\<close>

lemma make_restraint_list_replicate:
  "make_restraint_list env cv_list (replicate (length cv_list) k) (replicate (length cv_list) a)
     = Inr (map (\<lambda>cv. make_restraint env (''res-'' @ cv) cv k a) cv_list,
            map (\<lambda>cv. ''res-'' @ cv) cv_list)"
  by (auto simp: make_restraint_list_def intro!: nth_equalityI)

lemma sample_resolve_torsion:
  "resolve_restraint_cvs sample_env Map.empty None None None 100 ''plm.out'' ''torsion'' ''restrained''
    = Inr ([''dih-012-00: TORSION ATOMS=1,2,3,4'', ''dih-012-01: TORSION ATOMS=5,6,7,8''],
           [''dih-012-00'', ''dih-012-01''])"
  by code_simp

text \<open>
  Claim C4. A scalar \<open>kappa\<close> and a scalar \<open>at\<close> give the same restraint clauses and the same
  restraint names as the sequences that repeat them once per CV name; both forms succeed,
  with one clause and one name \<open>res-<cv>\<close> per CV name, in order. The entry point
  \<open>make_restraint_plumed\<close> returns the same script for both forms, whatever CVs it resolved.
\<close>

theorem broadcast_agrees_with_explicit_sequence:
  "make_restraint_list env cv_list (broadcast (Scalar kappa) (length cv_list))
       (broadcast (Scalar at) (length cv_list))
     = make_restraint_list env cv_list
         (broadcast (Sequence (replicate (length cv_list) kappa)) (length cv_list))
         (broadcast (Sequence (replicate (length cv_list) at)) (length cv_list))
   \<and> make_restraint_list env cv_list (broadcast (Scalar kappa) (length cv_list))
       (broadcast (Scalar at) (length cv_list))
     = Inr (map (\<lambda>cv. make_restraint env (''res-'' @ cv) cv kappa at) cv_list,
            map (\<lambda>cv. ''res-'' @ cv) cv_list)
   \<and> (resolve_restraint_cvs env fs conf cv_file selected_resid stride output mode method
         = Inr (content_list, cv_name_list) \<longrightarrow>
       make_restraint_plumed env fs conf cv_file selected_resid (Scalar kappa) (Scalar at)
           stride output mode method
         = make_restraint_plumed env fs conf cv_file selected_resid
             (Sequence (replicate (length cv_name_list) kappa))
             (Sequence (replicate (length cv_name_list) at)) stride output mode method)"
  by (simp add: make_restraint_list_replicate make_restraint_plumed_def)

theorem broadcast_agrees_with_explicit_sequence_witness:
  "resolve_restraint_cvs sample_env Map.empty None None None 100 ''plm.out'' ''torsion'' ''restrained''
     = Inr ([''dih-012-00: TORSION ATOMS=1,2,3,4'', ''dih-012-01: TORSION ATOMS=5,6,7,8''],
            [''dih-012-00'', ''dih-012-01''])
   \<and> make_restraint_plumed sample_env Map.empty None None None (Scalar (PyFloat ''0.5''))
         (Scalar (PyFloat ''1.0'')) 100 ''plm.out'' ''torsion'' ''restrained''
     = make_restraint_plumed sample_env Map.empty None None None
         (Sequence [PyFloat ''0.5'', PyFloat ''0.5''])
         (Sequence [PyFloat ''1.0'', PyFloat ''1.0'']) 100 ''plm.out'' ''torsion'' ''restrained''"
  using broadcast_agrees_with_explicit_sequence
      [of sample_env "[]" "PyFloat ''0.5''" "PyFloat ''1.0''" Map.empty None None None 100
        "''plm.out''" "''torsion''" "''restrained''"
        "[''dih-012-00: TORSION ATOMS=1,2,3,4'', ''dih-012-01: TORSION ATOMS=5,6,7,8'']"
        "[''dih-012-00'', ''dih-012-01'']"]
    sample_resolve_torsion
  by (simp add: numeral_2_eq_2)

text \<open>
  Claim C7, as the code has it. Once the CVs are resolved, a \<open>kappa\<close> sequence whose length
  differs from the number of CV names makes \<open>make_restraint_plumed\<close> fail with the
  AssertionError of line 57, and (the \<open>kappa\<close> check passed) an \<open>at\<close> sequence of another
  length makes it fail with the AssertionError of line 58; no script is returned.
\<close>

theorem restraint_length_mismatch_is_assertion_error:
  assumes "resolve_restraint_cvs env fs conf cv_file selected_resid stride output mode method
             = Inr (content_list, cv_name_list)"
  shows "(length ks \<noteq> length cv_name_list \<longrightarrow>
            make_restraint_plumed env fs conf cv_file selected_resid (Sequence ks) at
                stride output mode method = Inl (AssertionError kappa_msg))
       \<and> (length (broadcast kappa (length cv_name_list)) = length cv_name_list
            \<and> length as \<noteq> length cv_name_list \<longrightarrow>
            make_restraint_plumed env fs conf cv_file selected_resid kappa (Sequence as)
                stride output mode method = Inl (AssertionError at_msg))"
  using assms by (auto simp: make_restraint_plumed_def make_restraint_list_def)

theorem restraint_length_mismatch_is_assertion_error_witness:
  "make_restraint_plumed sample_env Map.empty None None None (Sequence [PyFloat ''0.5''])
       (Scalar (PyFloat ''1.0'')) 100 ''plm.out'' ''torsion'' ''restrained''
     = Inl (AssertionError kappa_msg)
   \<and> make_restraint_plumed sample_env Map.empty None None None (Scalar (PyFloat ''0.5''))
       (Sequence [PyFloat ''1.0'', PyFloat ''1.0'', PyFloat ''1.0'']) 100 ''plm.out''
       ''torsion'' ''restrained''
     = Inl (AssertionError at_msg)"
  using restraint_length_mismatch_is_assertion_error [OF sample_resolve_torsion,
      of "[PyFloat ''0.5'']" "Scalar (PyFloat ''1.0'')" "Scalar (PyFloat ''0.5'')"
         "[PyFloat ''1.0'', PyFloat ''1.0'', PyFloat ''1.0'']"]
  by simp

text \<open>
  The claim C7 as the spec words it fails: with two torsion CVs and a \<open>kappa\<close> sequence of
  length one the error is the AssertionError of line 57, not \<open>RuntimeError("length mismatch")\<close>.
\<close>

theorem length_mismatch_is_not_runtime_error:
  "make_restraint_plumed sample_env Map.empty None None None (Sequence [PyFloat ''0.5''])
       (Scalar (PyFloat ''1.0'')) 100 ''plm.out'' ''torsion'' ''restrained''
     = Inl (AssertionError ''Make sure `kappa` and `cv_names` have the same length.'')
   \<and> make_restraint_plumed sample_env Map.empty None None None (Sequence [PyFloat ''0.5''])
       (Scalar (PyFloat ''1.0'')) 100 ''plm.out'' ''torsion'' ''restrained''
     \<noteq> Inl (RuntimeError ''length mismatch'')"
  by (simp add: make_restraint_plumed_def sample_resolve_torsion make_restraint_list_def
        kappa_msg_def)

section \<open>Selection without a committee\<close>

lemma np_take_all: "np_take xs (map int [0 ..< length xs]) = Inr xs"
  by (auto simp: np_take_def list_all_iff intro!: nth_equalityI)

text \<open>
  Claim C3. When \<open>models\<close> is \<open>None\<close> the selection stage raises nothing, writes the empty
  deviation record first, selects every position and so keeps \<open>cls_sel_idx\<close> as it is, in
  its order; \<open>execute\<close> goes on from there with these two effects and these indices.
\<close>

theorem no_committee_keeps_every_candidate:
  "select_stage env None trust_lvl_1 cls_sel_idx cls_sel_data
     = Inr ([SaveDevi (''cls_'' @ model_devi_name env) [],
             SaveIndex (sel_ndx_name env) cls_sel_idx],
            map int [0 ..< length cls_sel_idx], cls_sel_idx)
   \<and> execute env task_name walker_idx cls_sel_idx cls_sel_data None trust_lvl_1 dt output_freq
         slice_mode
     = and_then (np_take cls_sel_data (map int [0 ..< length cls_sel_idx])) (\<lambda>sel_data.
       and_then (slice_stage env slice_mode walker_idx dt output_freq cls_sel_idx) (\<lambda>effects2.
         (case collect_confs env task_name slice_mode walker_idx (zip cls_sel_idx sel_data)
                 ([], [], Map.empty, []) of
            (conf_list, cv_init_list, conf_tags, effects3) \<Rightarrow>
              Inr ([SaveDevi (''cls_'' @ model_devi_name env) [],
                    SaveIndex (sel_ndx_name env) cls_sel_idx] @ effects2 @ effects3,
                   \<lparr> selected_confs = conf_list,
                     selected_cv_init = cv_init_list,
                     model_devi = (task_name, ''cls_'' @ model_devi_name env),
                     selected_indices = (task_name, sel_ndx_name env),
                     selected_conf_tags = conf_tags \<rparr>))))"
  by (simp add: select_stage_def execute_def np_take_all)

section \<open>Resubmission\<close>

lemma collect_succeeded_filter:
  "collect_succeeded steps acc =
     acc @ filter (\<lambda>s. step_type s = ''Pod'' \<and> step_phase s = ''Succeeded''
                        \<and> step_key s \<noteq> Some ''prepare-rid'') steps"
  by (induction steps arbitrary: acc) simp_all

text \<open>
  Claim C9, as the code has it. The reused steps are exactly the recorded steps of type
  \<open>Pod\<close> whose phase is \<open>Succeeded\<close> and whose key is not \<open>prepare-rid\<close>, in the recorded
  order. So the prepare step is never reused and no step that has not succeeded is.
\<close>

theorem reuse_step_is_succeeded_pods_without_prepare:
  "reuse_step all_steps =
     filter (\<lambda>s. step_type s = ''Pod'' \<and> step_phase s = ''Succeeded''
                  \<and> step_key s \<noteq> Some ''prepare-rid'') all_steps
   \<and> Some ''prepare-rid'' \<notin> set (map step_key (reuse_step all_steps))
   \<and> filter (\<lambda>s. step_phase s \<noteq> ''Succeeded'') (reuse_step all_steps) = []"
  by (auto simp: reuse_step_def collect_succeeded_filter filter_empty_conv)

text \<open>
  The claim C9 as the spec words it fails: a succeeded step of type \<open>Steps\<close> whose key is
  not \<open>prepare-rid\<close> is not reused.
\<close>

theorem succeeded_non_pod_step_is_not_reused:
  "step_phase \<lparr>step_type = ''Steps'', step_phase = ''Succeeded'', step_key = Some ''rid-procedure''\<rparr>
     = ''Succeeded''
   \<and> step_key \<lparr>step_type = ''Steps'', step_phase = ''Succeeded'', step_key = Some ''rid-procedure''\<rparr>
     \<noteq> Some ''prepare-rid''
   \<and> reuse_step [\<lparr>step_type = ''Steps'', step_phase = ''Succeeded'',
                   step_key = Some ''rid-procedure''\<rparr>] = []"
  by (simp add: reuse_step_def)

section \<open>Which errors the parts can raise\<close>

lemma and_then_known:
  "r \<noteq> Inl unknown_mode \<Longrightarrow> (\<And>x. f x \<noteq> Inl unknown_mode) \<Longrightarrow> and_then r f \<noteq> Inl unknown_mode"
  by (cases r) simp_all

lemma item_error: "item xs i = Inl e \<Longrightarrow> e = IndexError"
  by (auto simp: item_def Let_def split: if_splits)

lemma item_known [simp]: "item xs i \<noteq> Inl unknown_mode"
  by (simp add: item_def Let_def unknown_mode_def)

lemma set_item_error: "set_item xs i v = Inl e \<Longrightarrow> e = IndexError"
  by (auto simp: set_item_def Let_def split: if_splits)

lemma py_int_known [simp]: "py_int s \<noteq> Inl unknown_mode"
  by (simp add: py_int_def Let_def unknown_mode_def)

lemma make_distance_name_known [simp]: "make_distance_name env a \<noteq> Inl unknown_mode"
  unfolding make_distance_name_def
  by (intro and_then_known) (simp_all)

lemma make_distance_known [simp]: "make_distance env n a \<noteq> Inl unknown_mode"
  by (simp add: make_distance_def unknown_mode_def)

lemma make_torsion_known [simp]: "make_torsion env n a \<noteq> Inl unknown_mode"
  by (simp add: make_torsion_def unknown_mode_def)

lemma restrained_line_error: "restrained_line line st = Inl e \<Longrightarrow> e = IndexError"
  unfolding restrained_line_def colon_cv_type_def label_cv_type_def
  by (auto simp: and_then_eq_Inl split: if_splits dest: item_error)

lemma line_step_error: "line_step method line st = Inl e \<Longrightarrow> e = IndexError"
  by (auto simp: line_step_def split: if_splits dest: restrained_line_error)

lemma scan_lines_error: "scan_lines method lines st = Inl e \<Longrightarrow> e = IndexError"
proof (induction lines arbitrary: st)
  case Nil
  then show ?case by simp
next
  case (Cons line lines)
  then show ?case
    by (auto simp: and_then_eq_Inl split: if_splits dest: line_step_error)
qed

lemma rewrite_print_error: "rewrite_print pc s f = Inl e \<Longrightarrow> e = IndexError"
  by (auto simp: rewrite_print_def and_then_eq_Inl dest: set_item_error)

lemma user_plumed_def_known [simp]:
  "user_plumed_def fs cv_file pstride pfile method \<noteq> Inl unknown_mode"
proof
  assume a: "user_plumed_def fs cv_file pstride pfile method = Inl unknown_mode"
  show False
  proof (cases "fs cv_file")
    case None
    with a show False by (simp add: user_plumed_def_def unknown_mode_def)
  next
    case (Some content)
    show False
    proof (cases "scan_lines method (readlines content) init_state")
      case (Inl e)
      then have "e = IndexError" by (rule scan_lines_error)
      with a Some Inl show False by (simp add: user_plumed_def_def unknown_mode_def)
    next
      case (Inr st)
      show False
      proof (cases "rewrite_print (the (print_content st)) pstride pfile")
        case rl: (Inl e)
        then have "e = IndexError" by (rule rewrite_print_error)
        with a Some Inr rl show False
          by (simp add: user_plumed_def_def unknown_mode_def split: if_splits option.splits)
      next
        case rr: (Inr p)
        with a Some Inr show False
          by (simp add: user_plumed_def_def unknown_mode_def split: if_splits option.splits)
      qed
    qed
  qed
qed

lemma distance_pairs_known [simp]: "distance_pairs env info acc \<noteq> Inl unknown_mode"
proof (induction info arbitrary: acc)
  case Nil
  show ?case by simp
next
  case (Cons p info)
  obtain atomids dis where p: "p = (atomids, dis)" by (cases p)
  have "and_then (make_distance_name env (py_split '' '' atomids)) (\<lambda>name.
        and_then (make_distance env name (py_split '' '' atomids)) (\<lambda>d.
          distance_pairs env info (fst acc @ [d], snd acc @ [name]))) \<noteq> Inl unknown_mode"
    by (rule and_then_known, rule make_distance_name_known, rule and_then_known,
        rule make_distance_known, rule Cons.IH)
  then show ?case unfolding p distance_pairs.simps .
qed

lemma torsion_angles_known [simp]: "torsion_angles env resid angles acc \<noteq> Inl unknown_mode"
proof (induction angles arbitrary: acc)
  case Nil
  show ?case by simp
next
  case (Cons p angles)
  obtain ang atoms where p: "p = (ang, atoms)" by (cases p)
  show ?case
  proof (cases "angle_id ang")
    case None
    then show ?thesis by (simp add: p unknown_mode_def)
  next
    case (Some angid)
    have "and_then (make_torsion env (make_torsion_name env resid angid) atoms)
            (\<lambda>t. torsion_angles env resid angles
                   (fst acc @ [t], snd acc @ [make_torsion_name env resid angid]))
          \<noteq> Inl unknown_mode"
      by (rule and_then_known, rule make_torsion_known, rule Cons.IH)
    with Some show ?thesis by (simp add: p)
  qed
qed

lemma torsion_residues_known [simp]: "torsion_residues env info acc \<noteq> Inl unknown_mode"
proof (induction info arbitrary: acc)
  case Nil
  show ?case by simp
next
  case (Cons p info)
  obtain resid angles where p: "p = (resid, angles)" by (cases p)
  have "and_then (torsion_angles env resid angles acc) (\<lambda>acc'. torsion_residues env info acc')
          \<noteq> Inl unknown_mode"
    by (rule and_then_known, rule torsion_angles_known, rule Cons.IH)
  then show ?case unfolding p torsion_residues.simps .
qed

lemma make_torsion_list_from_file_known [simp]:
  "make_torsion_list_from_file env conf resid \<noteq> Inl unknown_mode"
proof (cases "length (get_dihedral_from_resid env conf resid) > 0")
  case True
  then show ?thesis
    by (simp add: make_torsion_list_from_file_def make_torsion_list_def Let_def)
next
  case False
  then show ?thesis
    by (simp add: make_torsion_list_from_file_def Let_def unknown_mode_def)
qed

lemma make_distance_list_from_file_known [simp]:
  "make_distance_list_from_file env conf atomid \<noteq> Inl unknown_mode"
proof (cases "length (get_distance_from_atomid env conf atomid) > 0")
  case True
  then show ?thesis
    by (simp add: make_distance_list_from_file_def make_distance_list_def Let_def)
next
  case False
  then show ?thesis
    by (simp add: make_distance_list_from_file_def Let_def unknown_mode_def)
qed

lemma first_cv_file_known [simp]: "first_cv_file cv_file \<noteq> Inl unknown_mode"
  by (cases cv_file) (simp_all add: first_cv_file_def unknown_mode_def item_def Let_def)

lemma call_user_plumed_def_known [simp]:
  "call_user_plumed_def fs f stride output given \<noteq> Inl unknown_mode"
proof (cases given)
  case None
  then show ?thesis by (simp add: call_user_plumed_def_def unknown_mode_def)
next
  case (Some m)
  then show ?thesis by (simp add: call_user_plumed_def_def)
qed

lemma resolve_restraint_unknown:
  "resolve_restraint_cvs env fs conf cv_file resid stride output mode method = Inl unknown_mode
     \<longleftrightarrow> mode \<notin> {''torsion'', ''custom''}"
proof (cases "mode = ''torsion''")
  case True
  have "and_then (make_torsion_list_from_file env conf resid)
          (\<lambda>(cv_content_list, cv_name_list). Inr (cv_content_list, cv_name_list))
        \<noteq> Inl unknown_mode"
    by (rule and_then_known) (simp_all add: split_def)
  with True show ?thesis by (simp add: resolve_restraint_cvs_def)
next
  case nt: False
  show ?thesis
  proof (cases "mode = ''custom''")
    case True
    have "and_then (first_cv_file cv_file) (\<lambda>f.
          and_then (call_user_plumed_def fs f stride output (Some method))
            (\<lambda>(r, cv_name_list, _). Inr ([r], cv_name_list))) \<noteq> Inl unknown_mode"
      by (rule and_then_known, simp, rule and_then_known) (simp_all add: split_def)
    with True show ?thesis by (simp add: resolve_restraint_cvs_def)
  next
    case False
    with nt show ?thesis by (simp add: resolve_restraint_cvs_def)
  qed
qed

lemma and_then_unknown_iff:
  "(\<And>x. f x \<noteq> Inl unknown_mode) \<Longrightarrow>
   (and_then r f = Inl unknown_mode) = (r = Inl unknown_mode)"
  by (cases r) simp_all

lemma make_restraint_list_known [simp]:
  "make_restraint_list env cvs k a \<noteq> Inl unknown_mode"
  by (simp add: make_restraint_list_def unknown_mode_def)

lemma resolve_constraint_unknown:
  "resolve_constraint_cvs env fs conf cv_file atomid stride output mode method = Inl unknown_mode
     \<longleftrightarrow> mode \<notin> {''distance'', ''custom''}"
proof (cases "mode = ''distance''")
  case True
  have "and_then (make_distance_list_from_file env conf atomid)
          (\<lambda>(cv_content_list, cv_name_list). Inr (map Some cv_content_list, cv_name_list, None))
        \<noteq> (Inl unknown_mode :: error + (string option list \<times> string list \<times> string option option))"
    by (rule and_then_known) (simp_all add: split_def)
  with True show ?thesis by (simp add: resolve_constraint_cvs_def)
next
  case nd: False
  show ?thesis
  proof (cases "mode = ''custom''")
    case True
    have "and_then (first_cv_file cv_file) (\<lambda>f.
          and_then (call_user_plumed_def fs f stride output (Some method))
            (\<lambda>(r, cv_name_list, pc). Inr ([Some r], cv_name_list, Some pc)))
          \<noteq> (Inl unknown_mode :: error + (string option list \<times> string list \<times> string option option))"
      by (rule and_then_known, simp, rule and_then_known) (simp_all add: split_def)
    with True show ?thesis by (simp add: resolve_constraint_cvs_def)
  next
    case False
    with nd show ?thesis by (simp add: resolve_constraint_cvs_def)
  qed
qed

lemma resolve_deepfe_custom:
  "resolve_deepfe_cvs env fs conf cv_file resid atomid stride output ''custom''
     = Inl (if cv_file = Some [] then IndexError else TypeError)"
proof (cases cv_file)
  case None
  then show ?thesis
    by (simp add: resolve_deepfe_cvs_def first_cv_file_def)
next
  case (Some files)
  then show ?thesis
    by (cases files)
       (simp_all add: resolve_deepfe_cvs_def first_cv_file_def item_def call_user_plumed_def_def)
qed

lemma resolve_deepfe_unknown:
  "resolve_deepfe_cvs env fs conf cv_file resid atomid stride output mode = Inl unknown_mode
     \<longleftrightarrow> mode \<notin> {''torsion'', ''distance'', ''custom''}"
proof (cases "mode = ''torsion''")
  case True
  have "and_then (make_torsion_list_from_file env conf resid)
          (\<lambda>(cv_content_list, cv_name_list). Inr (cv_content_list, cv_name_list))
        \<noteq> Inl unknown_mode"
    by (rule and_then_known) (simp_all add: split_def)
  with True show ?thesis by (simp add: resolve_deepfe_cvs_def)
next
  case nt: False
  show ?thesis
  proof (cases "mode = ''distance''")
    case True
    have "and_then (make_distance_list_from_file env conf atomid)
            (\<lambda>(cv_content_list, cv_name_list). Inr (cv_content_list, cv_name_list))
          \<noteq> Inl unknown_mode"
      by (rule and_then_known) (simp_all add: split_def)
    with True show ?thesis by (simp add: resolve_deepfe_cvs_def)
  next
    case nd: False
    show ?thesis
    proof (cases "mode = ''custom''")
      case True
      then show ?thesis by (simp add: resolve_deepfe_custom unknown_mode_def)
    next
      case False
      with nt nd show ?thesis by (simp add: resolve_deepfe_cvs_def)
    qed
  qed
qed


section \<open>The mode tag\<close>

text \<open>
  Claim C1, as the code has it. Each entry point raises the RuntimeError "Unknown mode for
  making plumed files." exactly when the mode tag is none of the tags it dispatches on:
  \<open>torsion\<close> and \<open>custom\<close> for \<open>make_restraint_plumed\<close>, \<open>distance\<close> and \<open>custom\<close> for
  \<open>make_constraint_plumed\<close>, and \<open>torsion\<close>, \<open>distance\<close> and \<open>custom\<close> for
  \<open>make_deepfe_plumed\<close>.
\<close>

theorem unknown_mode_exactly_outside_own_modes:
  "(make_restraint_plumed env fs conf cv_file selected_resid kappa at stride output mode method
      = Inl unknown_mode) = (mode \<notin> {''torsion'', ''custom''})
 \<and> (make_constraint_plumed env fs conf cv_file selected_atomid stride output mode method
      = Inl unknown_mode) = (mode \<notin> {''distance'', ''custom''})
 \<and> (make_deepfe_plumed env fs conf cv_file selected_resid selected_atomid trust_lvl_1 trust_lvl_2
        model_list stride output mode
      = Inl unknown_mode) = (mode \<notin> {''torsion'', ''distance'', ''custom''})"
proof (intro conjI)
  have k: "\<And>x. (case x of (content_list, cv_name_list) \<Rightarrow>
          and_then (make_restraint_list env cv_name_list
                      (broadcast kappa (length cv_name_list))
                      (broadcast at (length cv_name_list))) (\<lambda>(res_list, _).
            Inr (list_to_string env
                   (map Some (content_list @ res_list @ [make_print env cv_name_list stride output]))
                   ''\<newline>''))) \<noteq> Inl unknown_mode"
    by (simp add: split_def, rule and_then_known) simp_all
  show "(make_restraint_plumed env fs conf cv_file selected_resid kappa at stride output mode method
      = Inl unknown_mode) = (mode \<notin> {''torsion'', ''custom''})"
    unfolding make_restraint_plumed_def
    by (subst and_then_unknown_iff [OF k]) (rule resolve_restraint_unknown)
next
  have k: "\<And>x. (case x of (content_list, cv_name_list, bound_print_content) \<Rightarrow>
          and_then
            (if cv_name_list = [] then
               (case bound_print_content of
                  None \<Rightarrow> Inl UnboundLocalError
                | Some pc \<Rightarrow> Inr (content_list @ [pc]))
             else Inr (content_list @ [Some (make_print env cv_name_list stride output)]))
            (\<lambda>content_list'. Inr (list_to_string env content_list' ''\<newline>'')))
          \<noteq> Inl unknown_mode"
    by (auto simp: split_def unknown_mode_def and_then_eq_Inl split: option.splits if_splits)
  show "(make_constraint_plumed env fs conf cv_file selected_atomid stride output mode method
      = Inl unknown_mode) = (mode \<notin> {''distance'', ''custom''})"
    unfolding make_constraint_plumed_def
    by (subst and_then_unknown_iff [OF k]) (rule resolve_constraint_unknown)
next
  have k: "\<And>x. (case x of (content_list, cv_name_list) \<Rightarrow>
          Inr (list_to_string env
                 (map Some (content_list
                    @ [make_deepfe_bias env cv_name_list trust_lvl_1 trust_lvl_2 model_list]
                    @ [make_print env cv_name_list stride output]))
                 ''\<newline>'')) \<noteq> Inl unknown_mode"
    by (simp add: split_def)
  show "(make_deepfe_plumed env fs conf cv_file selected_resid selected_atomid trust_lvl_1 trust_lvl_2
        model_list stride output mode
      = Inl unknown_mode) = (mode \<notin> {''torsion'', ''distance'', ''custom''})"
    unfolding make_deepfe_plumed_def
    by (subst and_then_unknown_iff [OF k]) (rule resolve_deepfe_unknown)
qed


text \<open>
  The claim C1 as the spec words it fails: the restrained entry point has no branch for
  \<open>distance\<close> and the constrained entry point has none for \<open>torsion\<close>; both raise the
  unknown-mode error there.
\<close>

theorem restraint_rejects_distance_and_constraint_rejects_torsion:
  "make_restraint_plumed sample_env Map.empty None None None (Scalar (PyFloat ''0.5''))
       (Scalar (PyFloat ''1.0'')) 100 ''plm.out'' ''distance'' ''restrained''
     = Inl (RuntimeError ''Unknown mode for making plumed files.'')
   \<and> make_constraint_plumed sample_env Map.empty None None None 100 ''plm.out'' ''torsion''
       ''constrained''
     = Inl (RuntimeError ''Unknown mode for making plumed files.'')"
  by (simp add: make_restraint_plumed_def resolve_restraint_cvs_def make_constraint_plumed_def
        resolve_constraint_cvs_def unknown_mode_def)


text \<open>
  Claim C10, as the code has it. With the mode \<open>custom\<close>, \<open>make_deepfe_plumed\<close> and
  \<open>get_cv_name\<close> never return: the result is TypeError when \<open>cv_file\<close> is \<open>None\<close> (which
  cannot be subscripted) or names at least one file (the call of \<open>user_plumed_def\<close> then
  lacks \<open>method\<close>), and IndexError when \<open>cv_file\<close> is the empty list.
\<close>

theorem deepfe_custom_never_succeeds:
  "make_deepfe_plumed env fs conf cv_file selected_resid selected_atomid trust_lvl_1 trust_lvl_2
       model_list stride output ''custom''
     = Inl (if cv_file = Some [] then IndexError else TypeError)
   \<and> get_cv_name env fs conf cv_file selected_resid selected_atomid stride ''custom''
     = Inl (if cv_file = Some [] then IndexError else TypeError)"
proof
  show "make_deepfe_plumed env fs conf cv_file selected_resid selected_atomid trust_lvl_1 trust_lvl_2
       model_list stride output ''custom''
     = Inl (if cv_file = Some [] then IndexError else TypeError)"
    by (simp add: make_deepfe_plumed_def resolve_deepfe_custom)
  show "get_cv_name env fs conf cv_file selected_resid selected_atomid stride ''custom''
     = Inl (if cv_file = Some [] then IndexError else TypeError)"
  proof (cases cv_file)
    case None
    then show ?thesis by (simp add: get_cv_name_def first_cv_file_def)
  next
    case (Some files)
    then show ?thesis
      by (cases files)
         (simp_all add: get_cv_name_def first_cv_file_def item_def call_user_plumed_def_def)
  qed
qed


text \<open>
  The claim C10 as the spec words it fails for the empty list: \<open>cv_file[0]\<close> is evaluated
  before the call and raises IndexError.
\<close>

theorem deepfe_custom_with_empty_cv_file_is_index_error:
  "make_deepfe_plumed sample_env Map.empty None (Some []) None None (PyFloat ''1.0'')
       (PyFloat ''2.0'') [''graph.pb''] 100 ''plm.out'' ''custom'' = Inl IndexError
   \<and> get_cv_name sample_env Map.empty None (Some []) None None 100 ''custom'' = Inl IndexError"
  by (simp add: make_deepfe_plumed_def resolve_deepfe_cvs_def get_cv_name_def first_cv_file_def
        item_def)

section \<open>End-to-end scenario 1\<close>

text \<open>
  Claim C5, as the code has it. When the topology reader resolves the residues to
  \<open>{12: {phi: [1,2,3,4], psi: [5,6,7,8]}}\<close>, the restrained synthesizer with a scalar
  \<open>kappa\<close>, a scalar \<open>at\<close> and stride 100 returns the join of exactly five lines: the two
  torsion definitions, the two restraint clauses (named \<open>res-<cv>\<close>, one per torsion), and
  one monitoring clause with stride 100 whose argument list is the two torsion CV names,
  which are the targets of the restraints.
\<close>

theorem scenario_one_script:
  assumes "get_dihedral_from_resid env conf selected_resid
             = [(12, [(''phi'', [1, 2, 3, 4]), (''psi'', [5, 6, 7, 8])])]"
  shows "make_restraint_plumed env fs conf cv_file selected_resid (Scalar kappa) (Scalar at)
             100 output ''torsion'' method
           = Inr (list_to_string env
                    (map Some
                      [dihedral_def_from_atoms env (dihedral_name env 12 0) 1 2 3 4,
                       dihedral_def_from_atoms env (dihedral_name env 12 1) 5 6 7 8,
                       restraint_def env (''res-'' @ dihedral_name env 12 0)
                         (dihedral_name env 12 0) kappa at,
                       restraint_def env (''res-'' @ dihedral_name env 12 1)
                         (dihedral_name env 12 1) kappa at,
                       print_def env 100
                         (list_to_string env
                            [Some (dihedral_name env 12 0), Some (dihedral_name env 12 1)] '','')
                         output])
                    ''\<newline>'')"
proof -
  have r: "resolve_restraint_cvs env fs conf cv_file selected_resid 100 output ''torsion'' method
             = Inr ([dihedral_def_from_atoms env (dihedral_name env 12 0) 1 2 3 4,
                     dihedral_def_from_atoms env (dihedral_name env 12 1) 5 6 7 8],
                    [dihedral_name env 12 0, dihedral_name env 12 1])"
    using assms
    by (simp add: resolve_restraint_cvs_def make_torsion_list_from_file_def make_torsion_list_def
          make_torsion_def make_torsion_name_def angle_id_def)
  have l: "make_restraint_list env [dihedral_name env 12 0, dihedral_name env 12 1]
             [kappa, kappa] [at, at]
           = Inr ([restraint_def env (''res-'' @ dihedral_name env 12 0)
                     (dihedral_name env 12 0) kappa at,
                   restraint_def env (''res-'' @ dihedral_name env 12 1)
                     (dihedral_name env 12 1) kappa at],
                  [''res-'' @ dihedral_name env 12 0, ''res-'' @ dihedral_name env 12 1])"
    by (simp add: make_restraint_list_def make_restraint_def upt_rec numeral_2_eq_2)
  show ?thesis
    by (simp add: make_restraint_plumed_def r l make_print_def numeral_2_eq_2)
qed


theorem scenario_one_script_witness:
  "get_dihedral_from_resid sample_env None None
     = [(12, [(''phi'', [1, 2, 3, 4]), (''psi'', [5, 6, 7, 8])])]
   \<and> make_restraint_plumed sample_env Map.empty None None None (Scalar (PyFloat ''0.5''))
       (Scalar (PyFloat ''1.0'')) 100 ''plm.out'' ''torsion'' ''restrained''
     = Inr (list_to_string sample_env
              (map Some
                [''dih-012-00: TORSION ATOMS=1,2,3,4'',
                 ''dih-012-01: TORSION ATOMS=5,6,7,8'',
                 ''res-dih-012-00: RESTRAINT ARG=dih-012-00 KAPPA=0.5 AT=1.0'',
                 ''res-dih-012-01: RESTRAINT ARG=dih-012-01 KAPPA=0.5 AT=1.0'',
                 ''PRINT STRIDE=100 ARG=dih-012-00,dih-012-01 FILE=plm.out''])
              ''\<newline>'')"
proof -
  have h: "get_dihedral_from_resid sample_env None None
     = [(12, [(''phi'', [1, 2, 3, 4]), (''psi'', [5, 6, 7, 8])])]"
    by (simp add: sample_env_def)
  have e: "dihedral_name sample_env 12 0 = ''dih-012-00''"
          "dihedral_name sample_env 12 1 = ''dih-012-01''"
          "dihedral_def_from_atoms sample_env ''dih-012-00'' 1 2 3 4 = ''dih-012-00: TORSION ATOMS=1,2,3,4''"
          "dihedral_def_from_atoms sample_env ''dih-012-01'' 5 6 7 8 = ''dih-012-01: TORSION ATOMS=5,6,7,8''"
          "restraint_def sample_env ''res-dih-012-00'' ''dih-012-00'' (PyFloat ''0.5'') (PyFloat ''1.0'')
             = ''res-dih-012-00: RESTRAINT ARG=dih-012-00 KAPPA=0.5 AT=1.0''"
          "restraint_def sample_env ''res-dih-012-01'' ''dih-012-01'' (PyFloat ''0.5'') (PyFloat ''1.0'')
             = ''res-dih-012-01: RESTRAINT ARG=dih-012-01 KAPPA=0.5 AT=1.0''"
          "print_def sample_env 100 (list_to_string sample_env [Some ''dih-012-00'', Some ''dih-012-01''] '','') ''plm.out''
             = ''PRINT STRIDE=100 ARG=dih-012-00,dih-012-01 FILE=plm.out''"
    by code_simp+
  show ?thesis
    using scenario_one_script [OF h, of Map.empty None "PyFloat ''0.5''" "PyFloat ''1.0''" "''plm.out''" "''restrained''"] h
    by (simp add: e)
qed


text \<open>
  The claim C5 as the spec words it fails: the monitoring clause lists the CV names
  \<open>dih-012-00\<close> and \<open>dih-012-01\<close>; the restraint names \<open>res-dih-012-00\<close> and
  \<open>res-dih-012-01\<close> that \<open>make_restraint_list\<close> returns are dropped (line 265), and no
  argument list of the script names one.
\<close>

theorem scenario_one_print_lists_cv_names:
  "make_restraint_plumed sample_env Map.empty None None None (Scalar (PyFloat ''0.5''))
       (Scalar (PyFloat ''1.0'')) 100 ''plm.out'' ''torsion'' ''restrained''
     = Inr ''dih-012-00: TORSION ATOMS=1,2,3,4\<newline>dih-012-01: TORSION ATOMS=5,6,7,8\<newline>res-dih-012-00: RESTRAINT ARG=dih-012-00 KAPPA=0.5 AT=1.0\<newline>res-dih-012-01: RESTRAINT ARG=dih-012-01 KAPPA=0.5 AT=1.0\<newline>PRINT STRIDE=100 ARG=dih-012-00,dih-012-01 FILE=plm.out''
   \<and> make_restraint_list sample_env [''dih-012-00'', ''dih-012-01'']
         [PyFloat ''0.5'', PyFloat ''0.5''] [PyFloat ''1.0'', PyFloat ''1.0'']
     = Inr ([''res-dih-012-00: RESTRAINT ARG=dih-012-00 KAPPA=0.5 AT=1.0'',
             ''res-dih-012-01: RESTRAINT ARG=dih-012-01 KAPPA=0.5 AT=1.0''],
            [''res-dih-012-00'', ''res-dih-012-01''])
   \<and> make_print sample_env [''res-dih-012-00'', ''res-dih-012-01''] 100 ''plm.out''
     = ''PRINT STRIDE=100 ARG=res-dih-012-00,res-dih-012-01 FILE=plm.out''
   \<and> \<not> py_in ''ARG=res-dih-012-00''
         ''dih-012-00: TORSION ATOMS=1,2,3,4\<newline>dih-012-01: TORSION ATOMS=5,6,7,8\<newline>res-dih-012-00: RESTRAINT ARG=dih-012-00 KAPPA=0.5 AT=1.0\<newline>res-dih-012-01: RESTRAINT ARG=dih-012-01 KAPPA=0.5 AT=1.0\<newline>PRINT STRIDE=100 ARG=dih-012-00,dih-012-01 FILE=plm.out''"
  by code_simp

section \<open>The custom CV parser\<close>

subsection \<open>PATH declarations\<close>

lemma restrained_line_path:
  assumes "path_decl line" and "restrained_line line st = Inr st1"
  shows "ispath st1 \<and> sliced_path_names line = Inr (cv_names st1)"
proof (cases "py_in '':'' line \<and> \<not> py_in ''#'' line")
  case True
  with assms(1) have t: "colon_cv_type line = Inr ''PATH''"
    by (simp add: path_decl_def)
  from assms(2) True t obtain l where "item (py_split '':'' line) 0 = Inr l"
    and "st1 = st\<lparr>ispath := True, cv_names := [strip (l @ ''.spath''), strip (l @ ''.zpath'')]\<rparr>"
    by (auto simp: restrained_line_def and_then_eq_Inr)
  with True show ?thesis by (auto simp: sliced_path_names_def)
next
  case False
  with assms(1) have c: "py_in ''LABEL'' line \<and> \<not> py_in ''#'' line"
    and t: "label_cv_type line = Inr ''PATH''"
    by (auto simp: path_decl_def split: if_splits)
  from assms(2) False c t obtain l where "item (py_split ''LABEL='' line) 1 = Inr l"
    and "st1 = st\<lparr>ispath := True, cv_names := [strip l @ ''.spath'', strip l @ ''.zpath'']\<rparr>"
    by (auto simp: restrained_line_def and_then_eq_Inr)
  with False show ?thesis by (auto simp: sliced_path_names_def)
qed

lemma restrained_line_other:
  assumes "\<not> path_decl line" and "restrained_line line st = Inr st1"
  shows "ispath st1 = ispath st \<and> (ispath st \<longrightarrow> cv_names st1 = cv_names st)"
proof (cases "py_in '':'' line \<and> \<not> py_in ''#'' line")
  case True
  with assms(2) obtain t where t: "colon_cv_type line = Inr t"
    by (auto simp: restrained_line_def and_then_eq_Inr)
  with assms(1) True have "t \<noteq> ''PATH''" by (simp add: path_decl_def)
  with assms(2) True t show ?thesis
    by (auto simp: restrained_line_def and_then_eq_Inr split: if_splits)
next
  case nc: False
  show ?thesis
  proof (cases "py_in ''LABEL'' line \<and> \<not> py_in ''#'' line")
    case True
    with assms(2) nc obtain t where t: "label_cv_type line = Inr t"
      by (auto simp: restrained_line_def and_then_eq_Inr)
    with assms(1) True nc have "t \<noteq> ''PATH''" by (simp add: path_decl_def)
    with assms(2) True nc t show ?thesis
      by (auto simp: restrained_line_def and_then_eq_Inr split: if_splits)
  next
    case False
    with assms(2) nc show ?thesis by (simp add: restrained_line_def)
  qed
qed

lemma scan_restrained_names:
  "scan_lines ''restrained'' lines st = Inr st' \<Longrightarrow>
   (if filter path_decl (body_lines lines) = []
    then ispath st' = ispath st \<and> (ispath st \<longrightarrow> cv_names st' = cv_names st)
    else ispath st' \<and> sliced_path_names (last (filter path_decl (body_lines lines))) = Inr (cv_names st'))"
proof (induction lines arbitrary: st)
  case Nil
  then show ?case by (simp add: body_lines_def)
next
  case (Cons line lines)
  show ?case
  proof (cases "is_print line")
    case True
    with Cons.prems show ?thesis by (auto simp: body_lines_def)
  next
    case False
    with Cons.prems obtain st1 where
      s1: "restrained_line line (st\<lparr>ret := ret st @ line\<rparr>) = Inr st1"
      and s2: "scan_lines ''restrained'' lines st1 = Inr st'"
      by (auto simp: and_then_eq_Inr line_step_def)
    note IH = Cons.IH [OF s2]
    have b: "body_lines (line # lines) = line # body_lines lines"
      using False by (simp add: body_lines_def)
    show ?thesis
    proof (cases "path_decl line")
      case True
      from restrained_line_path [OF True s1]
      have p: "ispath st1" "sliced_path_names line = Inr (cv_names st1)" by simp_all
      show ?thesis
      proof (cases "filter path_decl (body_lines lines) = []")
        case e: True
        with IH p True show ?thesis by (simp add: b)
      next
        case ne: False
        with IH True show ?thesis by (simp add: b)
      qed
    next
      case np: False
      from restrained_line_other [OF np s1]
      have o: "ispath st1 = ispath st" "ispath st \<longrightarrow> cv_names st1 = cv_names st" by simp_all
      show ?thesis
      proof (cases "filter path_decl (body_lines lines) = []")
        case e: True
        with IH o np show ?thesis by (auto simp: b)
      next
        case ne: False
        with IH np show ?thesis by (simp add: b)
      qed
    qed
  qed
qed

lemma user_plumed_def_Inr_scan:
  assumes "fs cv_file = Some content"
    and "user_plumed_def fs cv_file pstride pfile m = Inr (r, names, pc)"
  shows "\<exists>st. scan_lines m (readlines content) init_state = Inr st \<and> names = cv_names st
              \<and> r = ret st"
proof -
  from assms obtain st where s: "scan_lines m (readlines content) init_state = Inr st"
    and rest: "(if ret st = [] \<and> cv_names st = [] then
              Inl (RuntimeError ''Invalid customed plumed files.'')
            else
              (case print_content st of
                 None \<Rightarrow> Inr (ret st, cv_names st, None)
               | Some pc \<Rightarrow>
                   if m = ''restrained'' then
                     (if length (py_split '','' pc) = length (cv_names st) then
                        and_then (rewrite_print pc pstride pfile) (\<lambda>p.
                          Inr (ret st, cv_names st, Some p))
                      else Inl (AssertionError
                             (mismatch_msg (length (cv_names st)) (length (py_split '','' pc)))))
                   else if m = ''constrained'' then
                     and_then (rewrite_print pc pstride pfile) (\<lambda>p.
                       Inr (ret st, cv_names st, Some p))
                   else Inr (ret st, cv_names st, Some pc))) = Inr (r, names, pc)"
    by (auto simp: user_plumed_def_def and_then_eq_Inr)
  from rest have "names = cv_names st \<and> r = ret st"
    by (auto simp: and_then_eq_Inr split: if_splits option.splits)
  with s show ?thesis by blast
qed


subsection \<open>The label the code slices and the label the line declares\<close>

lemma split_on_char_hd:
  "\<exists>rest. split_on [c] cur s = (cur @ takeWhile (\<lambda>x. x \<noteq> c) s) # rest"
proof (induction s arbitrary: cur)
  case Nil
  show ?case by simp
next
  case (Cons a s)
  show ?case
  proof (cases "a = c")
    case True
    then show ?thesis by simp
  next
    case False
    from Cons.IH [of "cur @ [a]"] obtain rest where
      "split_on [c] (cur @ [a]) s = ((cur @ [a]) @ takeWhile (\<lambda>x. x \<noteq> c) s) # rest" by blast
    with False show ?thesis by simp
  qed
qed

lemma item_colon_0:
  "item (py_split '':'' line) 0 = Inr (takeWhile (\<lambda>c. c \<noteq> CHR '':'') line)"
proof -
  obtain rest where "split_on '':'' [] line = takeWhile (\<lambda>x. x \<noteq> CHR '':'') line # rest"
    using split_on_char_hd [of "CHR '':''" "[]" line] by auto
  then show ?thesis by (simp add: py_split_def item_def)
qed

lemma split_on_absent:
  "sep \<noteq> [] \<Longrightarrow> \<not> py_in sep s \<Longrightarrow> split_on sep cur s = [cur @ s]"
  by (induction s arbitrary: cur) auto

lemma split_on_present:
  "sep \<noteq> [] \<Longrightarrow> py_in sep s \<Longrightarrow>
   \<exists>b. split_on sep cur s = (cur @ b) # split_on sep [] (after_first sep s)"
proof (induction s arbitrary: cur)
  case Nil
  then show ?case by simp
next
  case (Cons c s)
  show ?case
  proof (cases "prefix sep (c # s)")
    case True
    with Cons.prems(1) have "split_on sep cur (c # s)
        = (cur @ []) # split_on sep [] (after_first sep (c # s))" by simp
    then show ?thesis by blast
  next
    case False
    with Cons.prems have "py_in sep s" by simp
    from Cons.IH [OF Cons.prems(1) this, of "cur @ [c]"] obtain b where
      "split_on sep (cur @ [c]) s = ((cur @ [c]) @ b) # split_on sep [] (after_first sep s)"
      by blast
    with False have "split_on sep cur (c # s)
        = (cur @ (c # b)) # split_on sep [] (after_first sep (c # s))" by simp
    then show ?thesis by blast
  qed
qed

lemma item_label_1:
  assumes "item (py_split ''LABEL='' line) 1 = Inr l"
    and "\<not> py_in ''LABEL='' (after_first ''LABEL='' line)"
  shows "l = after_first ''LABEL='' line"
proof (cases "py_in ''LABEL='' line")
  case True
  then obtain b where "split_on ''LABEL='' [] line
      = ([] @ b) # split_on ''LABEL='' [] (after_first ''LABEL='' line)"
    using split_on_present [of "''LABEL=''" line "[]"] by auto
  moreover have "split_on ''LABEL='' [] (after_first ''LABEL='' line) = [[] @ after_first ''LABEL='' line]"
    using assms(2) by (intro split_on_absent) simp_all
  ultimately have "py_split ''LABEL='' line = [b, after_first ''LABEL='' line]"
    by (simp add: py_split_def)
  with assms(1) show ?thesis by (simp add: item_def)
next
  case False
  then have "split_on ''LABEL='' [] line = [[] @ line]"
    by (intro split_on_absent) simp_all
  with assms(1) show ?thesis by (simp add: py_split_def item_def)
qed

lemma strip_before_suffix:
  assumes "suf \<noteq> []" and "\<not> is_space (hd suf)" and "\<not> is_space (last suf)"
  shows "strip (l @ suf) = dropWhile is_space l @ suf"
proof -
  have 1: "dropWhile is_space (l @ suf) = dropWhile is_space l @ suf"
  proof (cases "\<forall>x \<in> set l. is_space x")
    case True
    then have "dropWhile is_space (l @ suf) = dropWhile is_space suf"
      by simp
    moreover from assms have "dropWhile is_space suf = suf" by (cases suf) simp_all
    moreover from True have "dropWhile is_space l = []" by simp
    ultimately show ?thesis by simp
  next
    case False
    then obtain x where "x \<in> set l" "\<not> is_space x" by blast
    then show ?thesis by (rule dropWhile_append1)
  qed
  from assms have "rev suf \<noteq> []" "\<not> is_space (hd (rev suf))"
    by (simp_all add: hd_rev)
  then have "dropWhile is_space (rev suf @ rev (dropWhile is_space l))
      = rev suf @ rev (dropWhile is_space l)"
    by (cases "rev suf") simp_all
  then show ?thesis by (simp add: strip_def 1)
qed

lemma last_dropWhile: "dropWhile P l \<noteq> [] \<Longrightarrow> last (dropWhile P l) = last l"
  by (induction l) (auto split: if_splits)

lemma strip_plain:
  assumes "\<not> (l \<noteq> [] \<and> is_space (last l))"
  shows "strip l = dropWhile is_space l"
proof (cases "dropWhile is_space l = []")
  case True
  show ?thesis unfolding strip_def True by simp
next
  case False
  then have "l \<noteq> []" by auto
  with assms have "\<not> is_space (last l)" by simp
  with False have "\<not> is_space (last (dropWhile is_space l))" by (simp add: last_dropWhile)
  with False have "dropWhile is_space (rev (dropWhile is_space l)) = rev (dropWhile is_space l)"
    by (cases "rev (dropWhile is_space l)") (auto simp: last_rev hd_rev [symmetric] dest: arg_cong [where f = hd])
  then show ?thesis by (simp add: strip_def)
qed

lemma strip_word_then_spaces:
  assumes "\<forall>x \<in> set w. \<not> is_space x" and "\<forall>x \<in> set t. is_space x"
  shows "strip (w @ t) = w"
proof (cases w)
  case Nil
  from assms(2) have d: "dropWhile is_space t = []" by (simp only: dropWhile_eq_Nil_conv)
  show ?thesis by (simp add: strip_def Nil d)
next
  case (Cons a w')
  with assms(1) have 1: "dropWhile is_space (w @ t) = w @ t" by simp
  have 2: "dropWhile is_space (rev t @ rev w) = dropWhile is_space (rev w)"
    using assms(2) by (intro dropWhile_append2) simp
  from Cons have n: "rev w \<noteq> []" by simp
  then have "hd (rev w) \<in> set (rev w)" by (rule hd_in_set)
  with assms(1) have "\<not> is_space (hd (rev w))" by simp
  with n have "dropWhile is_space (rev w) = rev w" by (cases "rev w") simp_all
  with 1 2 show ?thesis by (simp add: strip_def)
qed

lemma takeWhile_not_space:
  "\<forall>x \<in> set (takeWhile (\<lambda>c. \<not> is_space c) s). \<not> is_space x"
  by (auto dest: set_takeWhileD)

lemma strip_spath: "strip (l @ ''.spath'') = dropWhile is_space l @ ''.spath''"
  by (rule strip_before_suffix) (simp_all add: is_space_def)

lemma strip_zpath: "strip (l @ ''.zpath'') = dropWhile is_space l @ ''.zpath''"
  by (rule strip_before_suffix) (simp_all add: is_space_def)

lemma sliced_colon:
  assumes "py_in '':'' line \<and> \<not> py_in ''#'' line"
  shows "sliced_path_names line
           = Inr [dropWhile is_space (takeWhile (\<lambda>c. c \<noteq> CHR '':'') line) @ ''.spath'',
                  dropWhile is_space (takeWhile (\<lambda>c. c \<noteq> CHR '':'') line) @ ''.zpath'']"
proof -
  have "sliced_path_names line
      = and_then (item (py_split '':'' line) 0) (\<lambda>l.
          Inr [strip (l @ ''.spath''), strip (l @ ''.zpath'')])"
    using assms by (simp add: sliced_path_names_def)
  also have "\<dots> = Inr [strip (takeWhile (\<lambda>c. c \<noteq> CHR '':'') line @ ''.spath''),
                      strip (takeWhile (\<lambda>c. c \<noteq> CHR '':'') line @ ''.zpath'')]"
    by (simp only: item_colon_0 and_then_Inr)
  finally show ?thesis by (simp only: strip_spath strip_zpath)
qed

lemma sliced_label:
  assumes "\<not> (py_in '':'' line \<and> \<not> py_in ''#'' line)"
    and "sliced_path_names line = Inr names"
  shows "\<exists>l. item (py_split ''LABEL='' line) 1 = Inr l
             \<and> names = [strip l @ ''.spath'', strip l @ ''.zpath'']"
proof -
  have "sliced_path_names line
      = and_then (item (py_split ''LABEL='' line) 1) (\<lambda>l.
          Inr [strip l @ ''.spath'', strip l @ ''.zpath''])"
    using assms(1) by (auto simp: sliced_path_names_def)
  with assms(2) have "and_then (item (py_split ''LABEL='' line) 1) (\<lambda>l.
          Inr [strip l @ ''.spath'', strip l @ ''.zpath'']) = Inr names" by (simp only:)
  then obtain l where "item (py_split ''LABEL='' line) 1 = Inr l"
    and "Inr [strip l @ ''.spath'', strip l @ ''.zpath''] = (Inr names :: error + string list)"
    unfolding and_then_eq_Inr by blast
  then show ?thesis by blast
qed

lemma declared_label_colon:
  assumes "py_in '':'' line \<and> \<not> py_in ''#'' line"
  shows "declared_label line = strip (takeWhile (\<lambda>c. c \<noteq> CHR '':'') line)"
  using assms by (simp add: declared_label_def)

lemma declared_label_attribute:
  assumes "\<not> (py_in '':'' line \<and> \<not> py_in ''#'' line)"
  shows "declared_label line = takeWhile (\<lambda>c. \<not> is_space c) (after_first ''LABEL='' line)"
  using assms by (auto simp: declared_label_def)

lemma plain_label_colon:
  assumes "py_in '':'' line \<and> \<not> py_in ''#'' line" and "plain_label line"
  shows "\<not> (takeWhile (\<lambda>c. c \<noteq> CHR '':'') line \<noteq> []
            \<and> is_space (last (takeWhile (\<lambda>c. c \<noteq> CHR '':'') line)))"
  using assms by (simp add: plain_label_def)

lemma plain_label_attribute:
  assumes "\<not> (py_in '':'' line \<and> \<not> py_in ''#'' line)" and "plain_label line"
  shows "list_all is_space (dropWhile (\<lambda>c. \<not> is_space c) (after_first ''LABEL='' line))
         \<and> \<not> py_in ''LABEL='' (after_first ''LABEL='' line)"
  using assms by (auto simp: plain_label_def)

lemma strip_attribute_value:
  assumes "list_all is_space (dropWhile (\<lambda>c. \<not> is_space c) a)"
  shows "strip a = takeWhile (\<lambda>c. \<not> is_space c) a"
proof -
  have "strip (takeWhile (\<lambda>c. \<not> is_space c) a @ dropWhile (\<lambda>c. \<not> is_space c) a)
          = takeWhile (\<lambda>c. \<not> is_space c) a"
  proof (rule strip_word_then_spaces)
    show "\<forall>x \<in> set (takeWhile (\<lambda>c. \<not> is_space c) a). \<not> is_space x"
      by (rule takeWhile_not_space)
    show "\<forall>x \<in> set (dropWhile (\<lambda>c. \<not> is_space c) a). is_space x"
      using assms by (simp only: list_all_iff)
  qed
  then show ?thesis by (simp only: takeWhile_dropWhile_id)
qed

lemma sliced_names_are_synthetic:
  assumes "sliced_path_names line = Inr names" and "plain_label line"
  shows "names = synthetic_path_names line"
proof (cases "py_in '':'' line \<and> \<not> py_in ''#'' line")
  case True
  let ?l = "takeWhile (\<lambda>c. c \<noteq> CHR '':'') line"
  from sliced_colon [OF True] assms(1)
  have n: "names = [dropWhile is_space ?l @ ''.spath'', dropWhile is_space ?l @ ''.zpath'']"
    by (simp only: sum.inject)
  from plain_label_colon [OF True assms(2)] have "strip ?l = dropWhile is_space ?l"
    by (rule strip_plain)
  then have "declared_label line = dropWhile is_space ?l"
    by (simp only: declared_label_colon [OF True])
  with n show ?thesis by (simp only: synthetic_path_names_def)
next
  case False
  from sliced_label [OF False assms(1)] obtain l where
    l: "item (py_split ''LABEL='' line) 1 = Inr l"
    and n: "names = [strip l @ ''.spath'', strip l @ ''.zpath'']" by blast
  from plain_label_attribute [OF False assms(2)]
  have p: "list_all is_space (dropWhile (\<lambda>c. \<not> is_space c) (after_first ''LABEL='' line))"
    and o: "\<not> py_in ''LABEL='' (after_first ''LABEL='' line)" by blast+
  from item_label_1 [OF l o] have la: "l = after_first ''LABEL='' line" .
  from strip_attribute_value [OF p] la have "strip l = declared_label line"
    by (simp only: declared_label_attribute [OF False])
  with n show ?thesis by (simp only: synthetic_path_names_def)
qed

lemma sliced_names_shape:
  assumes "sliced_path_names line = Inr names"
  shows "\<exists>x. names = [x @ ''.spath'', x @ ''.zpath'']"
proof (cases "py_in '':'' line \<and> \<not> py_in ''#'' line")
  case True
  from sliced_colon [OF True] assms
  have "names = [dropWhile is_space (takeWhile (\<lambda>c. c \<noteq> CHR '':'') line) @ ''.spath'',
                 dropWhile is_space (takeWhile (\<lambda>c. c \<noteq> CHR '':'') line) @ ''.zpath'']"
    by (simp only: sum.inject)
  then show ?thesis by blast
next
  case False
  from sliced_label [OF False assms] show ?thesis by blast
qed

lemma returned_names_are_sliced:
  assumes "fs cv_file = Some content"
    and "user_plumed_def fs cv_file pstride pfile ''restrained'' = Inr (r, names, pc)"
    and "filter path_decl (body_lines (readlines content)) \<noteq> []"
  shows "sliced_path_names (last (filter path_decl (body_lines (readlines content)))) = Inr names"
proof -
  from user_plumed_def_Inr_scan [OF assms(1,2)] obtain st where
    s: "scan_lines ''restrained'' (readlines content) init_state = Inr st"
    and n: "names = cv_names st" by blast
  from scan_restrained_names [OF s] assms(3) n show ?thesis by simp
qed



lemma path_fragment_file: "[''cv.dat'' \<mapsto> path_fragment] ''cv.dat'' = Some path_fragment"
  by simp

lemma path_fragment_restrained:
  "user_plumed_def [''cv.dat'' \<mapsto> path_fragment] ''cv.dat'' 100 ''plm.out'' ''restrained''
      = Inr (''d1: DISTANCE ATOMS=1,2\<newline>t1: TORSION ATOMS=1,2,3,4\<newline>p1: PATH REFERENCE=r.pdb\<newline>'',
             [''p1.spath'', ''p1.zpath''],
             Some ''PRINT STRIDE=100 ARG=p1.spath,p1.zpath FILE=plm.out'')"
  by code_simp

lemma path_fragment_paths:
  "filter path_decl (body_lines (readlines path_fragment)) = [''p1: PATH REFERENCE=r.pdb\<newline>'']"
  by code_simp

lemma path_fragment_label:
  "plain_label ''p1: PATH REFERENCE=r.pdb\<newline>''"
  "synthetic_path_names ''p1: PATH REFERENCE=r.pdb\<newline>'' = [''p1.spath'', ''p1.zpath'']"
  by code_simp+

lemma attribute_fragment_file:
  "[''cv.dat'' \<mapsto> attribute_path_fragment] ''cv.dat'' = Some attribute_path_fragment"
  by simp

lemma attribute_fragment_restrained:
  "user_plumed_def [''cv.dat'' \<mapsto> attribute_path_fragment] ''cv.dat'' 100 ''plm.out'' ''restrained''
      = Inr (''DISTANCE ATOMS=1,2 LABEL=d1\<newline>TORSION ATOMS=1,2,3,4 LABEL=t1\<newline>PATH REFERENCE=r.pdb LABEL=p1\<newline>'',
             [''p1.spath'', ''p1.zpath''], None)"
  by code_simp

lemma attribute_fragment_paths:
  "filter path_decl (body_lines (readlines attribute_path_fragment))
     = [''PATH REFERENCE=r.pdb LABEL=p1\<newline>'']"
  by code_simp

lemma attribute_fragment_label:
  "plain_label ''PATH REFERENCE=r.pdb LABEL=p1\<newline>''"
  "synthetic_path_names ''PATH REFERENCE=r.pdb LABEL=p1\<newline>'' = [''p1.spath'', ''p1.zpath'']"
  by code_simp+




text \<open>
  Where the label is not written plainly the slice of lines 134 and 135 is not the label:
  it runs from \<open>LABEL=\<close> to the end of the line.
\<close>

lemma label_slice_runs_to_the_end_of_the_line:
  "user_plumed_def [''cv.dat'' \<mapsto> label_first_fragment] ''cv.dat'' 100 ''plm.out'' ''restrained''
     = Inr (''PATH LABEL=p1 REFERENCE=r.pdb\<newline>'',
            [''p1 REFERENCE=r.pdb.spath'', ''p1 REFERENCE=r.pdb.zpath''], None)
   \<and> declared_label ''PATH LABEL=p1 REFERENCE=r.pdb\<newline>'' = ''p1''
   \<and> \<not> plain_label ''PATH LABEL=p1 REFERENCE=r.pdb\<newline>''"
  by code_simp

subsection \<open>The monitoring directive\<close>

lemma and_then_assoc:
  "and_then (and_then r f) g = and_then r (\<lambda>x. and_then (f x) g)"
  by (cases r) simp_all

lemma scan_lines_split:
  "scan_lines m lines st =
     and_then (scan_lines m (body_lines lines) st) (\<lambda>s.
       Inr (case first_directive lines of
              None \<Rightarrow> s
            | Some d \<Rightarrow> s\<lparr>print_content := Some (d @ ''\<newline>'')\<rparr>))"
proof (induction lines arbitrary: st)
  case Nil
  show ?case by (simp add: body_lines_def first_directive_def)
next
  case (Cons line lines)
  show ?case
  proof (cases "is_print line")
    case True
    then show ?thesis by (simp add: body_lines_def first_directive_def)
  next
    case False
    show ?thesis
    proof (cases "line_step m line (st\<lparr>ret := ret st @ line\<rparr>)")
      case (Inl e)
      with False show ?thesis by (simp add: body_lines_def first_directive_def)
    next
      case (Inr st1)
      with False Cons.IH [of st1] show ?thesis
        by (simp add: body_lines_def first_directive_def)
    qed
  qed
qed

lemma restrained_line_ret: "restrained_line line st = Inr st1 \<Longrightarrow> ret st1 = ret st"
  by (auto simp: restrained_line_def and_then_eq_Inr split: if_splits)

lemma line_step_ret: "line_step m line st = Inr st1 \<Longrightarrow> ret st1 = ret st"
  by (auto simp: line_step_def split: if_splits dest: restrained_line_ret)

lemma scan_body_ret:
  "scan_lines m ls st = Inr st' \<Longrightarrow> list_all (\<lambda>l. \<not> is_print l) ls \<Longrightarrow>
   ret st' = ret st @ concat ls"
proof (induction ls arbitrary: st)
  case Nil
  then show ?case by simp
next
  case (Cons line ls)
  from Cons.prems obtain st1 where
    s1: "line_step m line (st\<lparr>ret := ret st @ line\<rparr>) = Inr st1"
    and s2: "scan_lines m ls st1 = Inr st'"
    by (auto simp: and_then_eq_Inr)
  from line_step_ret [OF s1] have "ret st1 = ret st @ line" by simp
  with Cons.IH [OF s2] Cons.prems(2) show ?case by simp
qed

lemma body_lines_no_print: "list_all (\<lambda>l. \<not> is_print l) (body_lines lines)"
  by (induction lines) (simp_all add: body_lines_def)

lemma lines_of_nonempty: "l \<in> set (lines_of cur s) \<Longrightarrow> l \<noteq> []"
  by (induction s arbitrary: cur) (auto split: if_splits)

lemma body_lines_subset: "set (body_lines lines) \<subseteq> set lines"
  by (auto simp: body_lines_def dest: set_takeWhileD)

lemma body_text_nonempty:
  assumes "body_lines (readlines content) \<noteq> []"
  shows "concat (body_lines (readlines content)) \<noteq> []"
proof -
  from assms obtain l ls where b: "body_lines (readlines content) = l # ls"
    by (cases "body_lines (readlines content)") auto
  then have "l \<in> set (readlines content)"
    using body_lines_subset [of "readlines content"] by auto
  then have "l \<noteq> []" by (auto simp: readlines_def dest: lines_of_nonempty)
  with b show ?thesis by simp
qed

lemma scan_constrained:
  "cv_names st = [] \<Longrightarrow>
   \<exists>st'. scan_lines ''constrained'' lines st = Inr st' \<and> cv_names st' = []"
proof (induction lines arbitrary: st)
  case Nil
  then show ?case by simp
next
  case (Cons line lines)
  show ?case
  proof (cases "is_print line")
    case True
    with Cons.prems show ?thesis by simp
  next
    case False
    have "cv_names (st\<lparr>ret := ret st @ line, cv_names := []\<rparr>) = []" by simp
    from Cons.IH [OF this] False show ?thesis by (simp add: line_step_def)
  qed
qed

lemma set_item_twice:
  "2 \<le> length xs \<Longrightarrow> \<exists>l1 l2. set_item xs (- 1) a = Inr l1 \<and> set_item l1 1 b = Inr l2"
  by (auto simp: set_item_def Let_def)

lemma rewrite_print_ok:
  assumes "2 \<le> length (py_split_ws pc)"
  shows "\<exists>p. rewrite_print pc pstride pfile = Inr p"
  using set_item_twice [OF assms, of "''FILE='' @ pfile" "''STRIDE='' @ str_int pstride"]
  unfolding rewrite_print_def by auto

lemma restrained_line_print:
  "restrained_line line st = Inr st1 \<Longrightarrow> print_content st1 = print_content st"
  by (auto simp: restrained_line_def and_then_eq_Inr split: if_splits)

lemma line_step_print: "line_step m line st = Inr st1 \<Longrightarrow> print_content st1 = print_content st"
  by (auto simp: line_step_def split: if_splits dest: restrained_line_print)

lemma scan_body_print:
  "scan_lines m ls st = Inr st' \<Longrightarrow> list_all (\<lambda>l. \<not> is_print l) ls \<Longrightarrow>
   print_content st' = print_content st"
proof (induction ls arbitrary: st)
  case Nil
  then show ?case by simp
next
  case (Cons line ls)
  from Cons.prems obtain st1 where
    s1: "line_step m line (st\<lparr>ret := ret st @ line\<rparr>) = Inr st1"
    and s2: "scan_lines m ls st1 = Inr st'"
    by (auto simp: and_then_eq_Inr)
  from line_step_print [OF s1] have "print_content st1 = print_content st" by simp
  with Cons.IH [OF s2] Cons.prems(2) show ?case by simp
qed


text \<open>
  Claim C6, as the code has it. Parse a fragment with the method "restrained" whose first
  monitoring directive \<open>d\<close> comes after at least one line, and let the scan of the lines
  before it succeed with the names \<open>cv_names st\<close>. The field count is the number of
  comma-separated pieces of the directive line. If it differs from the number of names the
  parse fails with the AssertionError of line 142; if the parse succeeds the two are
  equal; and if they are equal and the directive has at least two whitespace-separated
  words, the parse succeeds with the body and the names of the scan.
\<close>

theorem print_field_count_check:
  assumes "fs cv_file = Some content"
    and "first_directive (readlines content) = Some d"
    and "scan_lines ''restrained'' (body_lines (readlines content)) init_state = Inr st"
    and "body_lines (readlines content) \<noteq> []"
  shows "(length (py_split '','' (d @ ''\<newline>'')) \<noteq> length (cv_names st) \<longrightarrow>
            user_plumed_def fs cv_file pstride pfile ''restrained''
              = Inl (AssertionError (mismatch_msg (length (cv_names st))
                       (length (py_split '','' (d @ ''\<newline>''))))))
       \<and> (length (py_split '','' (d @ ''\<newline>'')) = length (cv_names st)
            \<and> 2 \<le> length (py_split_ws (d @ ''\<newline>'')) \<longrightarrow>
            (\<exists>p. user_plumed_def fs cv_file pstride pfile ''restrained''
                    = Inr (ret st, cv_names st, Some p)))
       \<and> (user_plumed_def fs cv_file pstride pfile ''restrained'' = Inr res \<longrightarrow>
            length (py_split '','' (d @ ''\<newline>'')) = length (cv_names st))"
proof -
  have full: "scan_lines ''restrained'' (readlines content) init_state
                = Inr (st\<lparr>print_content := Some (d @ ''\<newline>'')\<rparr>)"
    by (subst scan_lines_split) (simp add: assms(2,3))
  have "ret st = ret init_state @ concat (body_lines (readlines content))"
    using assms(3) body_lines_no_print by (rule scan_body_ret)
  with body_text_nonempty [OF assms(4)] have r: "ret st \<noteq> []"
    by (simp add: init_state_def)
  have u: "user_plumed_def fs cv_file pstride pfile ''restrained''
      = (if length (py_split '','' (d @ ''\<newline>'')) = length (cv_names st) then
           and_then (rewrite_print (d @ ''\<newline>'') pstride pfile) (\<lambda>p.
             Inr (ret st, cv_names st, Some p))
         else Inl (AssertionError (mismatch_msg (length (cv_names st))
                     (length (py_split '','' (d @ ''\<newline>''))))))"
    using r by (simp add: user_plumed_def_def assms(1) full)
  show ?thesis
  proof (intro conjI impI)
    assume "length (py_split '','' (d @ ''\<newline>'')) \<noteq> length (cv_names st)"
    then show "user_plumed_def fs cv_file pstride pfile ''restrained''
              = Inl (AssertionError (mismatch_msg (length (cv_names st))
                       (length (py_split '','' (d @ ''\<newline>'')))))"
      by (simp add: u)
  next
    assume a: "length (py_split '','' (d @ ''\<newline>'')) = length (cv_names st)
            \<and> 2 \<le> length (py_split_ws (d @ ''\<newline>''))"
    then obtain p where "rewrite_print (d @ ''\<newline>'') pstride pfile = Inr p"
      using rewrite_print_ok by blast
    with a show "\<exists>p. user_plumed_def fs cv_file pstride pfile ''restrained''
                    = Inr (ret st, cv_names st, Some p)"
      by (simp add: u)
  next
    assume "user_plumed_def fs cv_file pstride pfile ''restrained'' = Inr res"
    then show "length (py_split '','' (d @ ''\<newline>'')) = length (cv_names st)"
      by (simp add: u split: if_splits)
  qed
qed


lemma path_fragment_directive:
  "first_directive (readlines path_fragment)
     = Some ''PRINT STRIDE=10 ARG=p1.spath,p1.zpath FILE=colvar\<newline>''"
  by code_simp

lemma path_fragment_scan:
  "scan_lines ''restrained'' (body_lines (readlines path_fragment)) init_state
     = Inr \<lparr>ret = ''d1: DISTANCE ATOMS=1,2\<newline>t1: TORSION ATOMS=1,2,3,4\<newline>p1: PATH REFERENCE=r.pdb\<newline>'',
            cv_names = [''p1.spath'', ''p1.zpath''], ispath = True, print_content = None\<rparr>"
  by code_simp

lemma path_fragment_body: "body_lines (readlines path_fragment) \<noteq> []"
  by code_simp

lemma path_fragment_counts:
  "length (py_split '','' ''PRINT STRIDE=10 ARG=p1.spath,p1.zpath FILE=colvar\<newline>\<newline>'') = 2"
  "length (py_split_ws ''PRINT STRIDE=10 ARG=p1.spath,p1.zpath FILE=colvar\<newline>\<newline>'') = 4"
  by code_simp+

lemma mismatch_fragment_file:
  "[''cv.dat'' \<mapsto> mismatch_fragment] ''cv.dat'' = Some mismatch_fragment"
  by simp

lemma mismatch_fragment_directive:
  "first_directive (readlines mismatch_fragment) = Some ''PRINT STRIDE=10 ARG=d1,d2 FILE=colvar\<newline>''"
  by code_simp

lemma mismatch_fragment_scan:
  "scan_lines ''restrained'' (body_lines (readlines mismatch_fragment)) init_state
     = Inr \<lparr>ret = ''d1: DISTANCE ATOMS=1,2\<newline>'', cv_names = [''d1''], ispath = False,
            print_content = None\<rparr>"
  by code_simp

lemma mismatch_fragment_body: "body_lines (readlines mismatch_fragment) \<noteq> []"
  by code_simp

lemma mismatch_fragment_counts:
  "length (py_split '','' ''PRINT STRIDE=10 ARG=d1,d2 FILE=colvar\<newline>\<newline>'') = 2"
  by code_simp

theorem print_field_count_check_witness:
  "first_directive (readlines path_fragment)
     = Some ''PRINT STRIDE=10 ARG=p1.spath,p1.zpath FILE=colvar\<newline>''
   \<and> body_lines (readlines path_fragment) \<noteq> []
   \<and> first_directive (readlines mismatch_fragment)
     = Some ''PRINT STRIDE=10 ARG=d1,d2 FILE=colvar\<newline>''
   \<and> body_lines (readlines mismatch_fragment) \<noteq> []
   \<and> (\<exists>p. user_plumed_def [''cv.dat'' \<mapsto> path_fragment] ''cv.dat'' 100 ''plm.out'' ''restrained''
          = Inr (''d1: DISTANCE ATOMS=1,2\<newline>t1: TORSION ATOMS=1,2,3,4\<newline>p1: PATH REFERENCE=r.pdb\<newline>'',
                 [''p1.spath'', ''p1.zpath''], Some p))
   \<and> user_plumed_def [''cv.dat'' \<mapsto> mismatch_fragment] ''cv.dat'' 100 ''plm.out'' ''restrained''
       = Inl (AssertionError (mismatch_msg 1 2))"
  using print_field_count_check [where fs = "[''cv.dat'' \<mapsto> path_fragment]" and cv_file = "''cv.dat''"
              and content = path_fragment and pstride = 100 and pfile = "''plm.out''",
            OF path_fragment_file path_fragment_directive path_fragment_scan path_fragment_body]
        print_field_count_check [where fs = "[''cv.dat'' \<mapsto> mismatch_fragment]" and cv_file = "''cv.dat''"
              and content = mismatch_fragment and pstride = 100 and pfile = "''plm.out''",
            OF mismatch_fragment_file mismatch_fragment_directive mismatch_fragment_scan
              mismatch_fragment_body]
        path_fragment_directive path_fragment_body mismatch_fragment_directive
        mismatch_fragment_body
  by (simp add: path_fragment_counts mismatch_fragment_counts)


text \<open>
  The claim C6 as the spec words it fails twice. A fragment whose first line is the
  directive is rejected by the guard of line 138 with the RuntimeError "Invalid customed
  plumed files.", not with the mismatch error. And when the directive is the single word
  PRINT after one declaration, the field count (1) equals the number of names (1), yet the
  parse fails with IndexError at line 145.
\<close>

theorem directive_failures_other_than_mismatch:
  "user_plumed_def [''cv.dat'' \<mapsto> directive_first_fragment] ''cv.dat'' 100 ''plm.out'' ''restrained''
     = Inl (RuntimeError ''Invalid customed plumed files.'')
   \<and> first_directive (readlines directive_first_fragment)
     = Some ''PRINT STRIDE=10 ARG=d1 FILE=colvar\<newline>''
   \<and> user_plumed_def [''cv.dat'' \<mapsto> bare_directive_fragment] ''cv.dat'' 100 ''plm.out'' ''restrained''
     = Inl IndexError
   \<and> first_directive (readlines bare_directive_fragment) = Some ''PRINT\<newline>''
   \<and> scan_lines ''restrained'' (body_lines (readlines bare_directive_fragment)) init_state
     = Inr \<lparr>ret = ''d1: DISTANCE ATOMS=1,2\<newline>'', cv_names = [''d1''], ispath = False,
            print_content = None\<rparr>
   \<and> length (py_split '','' (''PRINT\<newline>'' @ ''\<newline>'')) = 1"
  by code_simp


subsection \<open>The method "constrained"\<close>

text \<open>
  Claim C8. With the method "constrained" the scan of any list of lines succeeds with an
  empty list of names; whatever \<open>user_plumed_def\<close> returns carries the empty list; and it
  does return, with the empty list, for every fragment that has a line before its
  directive and whose directive (if any) has at least two words.
\<close>

theorem constrained_returns_no_names:
  "(\<exists>st. scan_lines ''constrained'' lines init_state = Inr st \<and> cv_names st = [])
   \<and> (fs cv_file = Some content
        \<and> user_plumed_def fs cv_file pstride pfile ''constrained'' = Inr (r, names, pc)
      \<longrightarrow> names = [])
   \<and> (fs cv_file = Some content \<and> body_lines (readlines content) \<noteq> []
        \<and> (case first_directive (readlines content) of
              None \<Rightarrow> True
            | Some d \<Rightarrow> 2 \<le> length (py_split_ws (d @ ''\<newline>'')))
      \<longrightarrow> (\<exists>body p. user_plumed_def fs cv_file pstride pfile ''constrained''
                       = Inr (body, [], p)))"
proof (intro conjI impI)
  show "\<exists>st. scan_lines ''constrained'' lines init_state = Inr st \<and> cv_names st = []"
    by (rule scan_constrained) (simp add: init_state_def)
next
  assume a: "fs cv_file = Some content
        \<and> user_plumed_def fs cv_file pstride pfile ''constrained'' = Inr (r, names, pc)"
  then obtain st where s: "scan_lines ''constrained'' (readlines content) init_state = Inr st"
    and n: "names = cv_names st"
    using user_plumed_def_Inr_scan by blast
  have "cv_names init_state = []" by (simp add: init_state_def)
  from scan_constrained [OF this, of "readlines content"] s have "cv_names st = []" by auto
  with n show "names = []" by simp
next
  assume a: "fs cv_file = Some content \<and> body_lines (readlines content) \<noteq> []
        \<and> (case first_directive (readlines content) of
              None \<Rightarrow> True
            | Some d \<Rightarrow> 2 \<le> length (py_split_ws (d @ ''\<newline>'')))"
  have i: "cv_names init_state = []" by (simp add: init_state_def)
  from scan_constrained [OF i, of "body_lines (readlines content)"] obtain st where
    s: "scan_lines ''constrained'' (body_lines (readlines content)) init_state = Inr st"
    and n: "cv_names st = []" by blast
  have "ret st = ret init_state @ concat (body_lines (readlines content))"
    using s body_lines_no_print by (rule scan_body_ret)
  with a body_text_nonempty have r: "ret st \<noteq> []" by (simp add: init_state_def)
  have p0: "print_content st = None"
    using scan_body_print [OF s body_lines_no_print] by (simp add: init_state_def)
  have full: "scan_lines ''constrained'' (readlines content) init_state
                = Inr (case first_directive (readlines content) of
                         None \<Rightarrow> st
                       | Some d \<Rightarrow> st\<lparr>print_content := Some (d @ ''\<newline>'')\<rparr>)"
    by (subst scan_lines_split) (simp add: s)
  show "\<exists>body p. user_plumed_def fs cv_file pstride pfile ''constrained'' = Inr (body, [], p)"
  proof (cases "first_directive (readlines content)")
    case None
    with a r n p0 full show ?thesis by (simp add: user_plumed_def_def)
  next
    case (Some d)
    with a have "2 \<le> length (py_split_ws (d @ ''\<newline>''))" by simp
    then obtain p where "rewrite_print (d @ ''\<newline>'') pstride pfile = Inr p"
      using rewrite_print_ok by blast
    with Some a r n full show ?thesis by (simp add: user_plumed_def_def)
  qed
qed

lemma path_fragment_constrained:
  "user_plumed_def [''cv.dat'' \<mapsto> path_fragment] ''cv.dat'' 100 ''plm.out'' ''constrained''
     = Inr (''d1: DISTANCE ATOMS=1,2\<newline>t1: TORSION ATOMS=1,2,3,4\<newline>p1: PATH REFERENCE=r.pdb\<newline>'',
            [], Some ''PRINT STRIDE=100 ARG=p1.spath,p1.zpath FILE=plm.out'')"
  by code_simp

theorem constrained_returns_no_names_witness:
  "user_plumed_def [''cv.dat'' \<mapsto> path_fragment] ''cv.dat'' 100 ''plm.out'' ''constrained''
     = Inr (''d1: DISTANCE ATOMS=1,2\<newline>t1: TORSION ATOMS=1,2,3,4\<newline>p1: PATH REFERENCE=r.pdb\<newline>'',
            [], Some ''PRINT STRIDE=100 ARG=p1.spath,p1.zpath FILE=plm.out'')
   \<and> body_lines (readlines path_fragment) \<noteq> []
   \<and> first_directive (readlines path_fragment)
     = Some ''PRINT STRIDE=10 ARG=p1.spath,p1.zpath FILE=colvar\<newline>''
   \<and> length (py_split_ws ''PRINT STRIDE=10 ARG=p1.spath,p1.zpath FILE=colvar\<newline>\<newline>'') = 4
   \<and> (\<exists>st. scan_lines ''constrained'' (readlines path_fragment) init_state = Inr st
             \<and> cv_names st = [])"
  using constrained_returns_no_names [of "readlines path_fragment" "[''cv.dat'' \<mapsto> path_fragment]" "''cv.dat''" path_fragment
      100 "''plm.out''"
      "''d1: DISTANCE ATOMS=1,2\<newline>t1: TORSION ATOMS=1,2,3,4\<newline>p1: PATH REFERENCE=r.pdb\<newline>''"
      "[]" "Some ''PRINT STRIDE=100 ARG=p1.spath,p1.zpath FILE=plm.out''"]
    path_fragment_constrained path_fragment_body path_fragment_directive
  by (simp add: path_fragment_counts)

end
